theory Spec2Isabelle
  imports Complex_Main
begin

section \<open>Numbers, vectors and world records\<close>

text \<open>
  The simulation of Paperboy 3D (\<^verbatim>\<open>game.js\<close>, \<^verbatim>\<open>player.js\<close>, \<^verbatim>\<open>controls.js\<close>,
  \<^verbatim>\<open>utils.js\<close>, \<^verbatim>\<open>world/obstacles.js\<close>) is embedded as functions on records.
  JavaScript numbers that hold coordinates, sizes and times are modelled as \<^typ>\<open>real\<close>
  (finite values, exact arithmetic: no NaN, no infinities, no rounding); the counters
  \<^verbatim>\<open>score\<close>, \<^verbatim>\<open>papers\<close> and \<^verbatim>\<open>lives\<close>, which only ever hold integers, are
  \<^typ>\<open>int\<close>. Rendering objects (meshes, camera, DOM text) are left out except for the
  visibility flag of the player's object; every field the simulation reads back is kept.
\<close>

text \<open>A \<^verbatim>\<open>THREE.Vector3\<close>; its fields \<^verbatim>\<open>x\<close>, \<^verbatim>\<open>y\<close>, \<^verbatim>\<open>z\<close> are written in capitals.\<close>

record Vector3 =
  X :: real
  Y :: real
  Z :: real

definition vec :: "real \<Rightarrow> real \<Rightarrow> real \<Rightarrow> Vector3" where
  "vec a b c = \<lparr>X = a, Y = b, Z = c\<rparr>"

text \<open>\<^verbatim>\<open>Vector3.add\<close>: component-wise sum.\<close>

definition Vector3_add :: "Vector3 \<Rightarrow> Vector3 \<Rightarrow> Vector3" where
  "Vector3_add p v = \<lparr>X = X p + X v, Y = Y p + Y v, Z = Z p + Z v\<rparr>"

text \<open>The \<^verbatim>\<open>type\<close> tag of an obstacle record (a string in the source).\<close>

datatype obstacle_type = Hill | Car | Tree | Sign | Bench | Pond | Drain

text \<open>
  Anything with a position and a bounding box. The player and the obstacles both have
  these fields, and \<^verbatim>\<open>checkCollision\<close> reads them from either.
\<close>

record Body =
  position :: Vector3
  width :: real
  height :: real
  depth :: real

record Obstacle = Body +
  type :: obstacle_type

text \<open>
  Mailbox and porch records: \<^verbatim>\<open>{ position, width, length }\<close>. The field
  \<^verbatim>\<open>length\<close> is written \<open>len\<close>.
\<close>

record Mailbox =
  position :: Vector3
  width :: real
  len :: real

record Porch =
  position :: Vector3
  width :: real
  len :: real

text \<open>The object returned by \<^verbatim>\<open>createNewspaper\<close> in \<^verbatim>\<open>world/obstacles.js\<close>.\<close>

record Newspaper =
  position :: Vector3
  velocity :: Vector3
  thrown :: bool
  delivered :: bool

record Player = Body +
  velocity :: Vector3
  speed :: real
  canJump :: bool
  isJumping :: bool
  jumpSpeed :: real
  playerHeight :: real
  isInvincible :: bool
  invincibleTime :: real
  blinkTime :: real
  isVisible :: bool
  object_visible :: bool

text \<open>The keys that \<^verbatim>\<open>Controls\<close> tracks; any other key is ignored by its handlers.\<close>

datatype key = ArrowUp | ArrowDown | ArrowLeft | ArrowRight | KeyW | KeyA | KeyS | KeyD | Space

text \<open>
  The \<^verbatim>\<open>Game\<close> object. \<open>keys\<close> is \<^verbatim>\<open>controls.keys\<close>. \<open>walls\<close> stands for
  the scene children tagged \<^verbatim>\<open>'wall'\<close>: each is given by the membership test of its
  bounding box (\<^verbatim>\<open>new THREE.Box3().setFromObject(wall).containsPoint\<close>).
\<close>

record Game =
  isActive :: bool
  score :: int
  papers :: int
  lives :: int
  obstacles :: "Obstacle list"
  mailboxes :: "Mailbox list"
  porches :: "Porch list"
  newspapers :: "Newspaper list"
  gameTime :: real
  player :: Player
  keys :: "key \<Rightarrow> bool"
  walls :: "(Vector3 \<Rightarrow> bool) list"

section \<open>utils.js\<close>

text \<open>\<^verbatim>\<open>checkCollision(obj1, obj2)\<close>: the axis-aligned test with the 0.7 tolerance.\<close>

definition checkCollision :: "'a Body_scheme \<Rightarrow> 'b Body_scheme \<Rightarrow> bool" where
  "checkCollision obj1 obj2 =
     (let dx = \<bar>X (Body.position obj1) - X (Body.position obj2)\<bar>;
          dz = \<bar>Z (Body.position obj1) - Z (Body.position obj2)\<bar>
      in dx < (Body.width obj1 / 2 + Body.width obj2 / 2) * 0.7 \<and>
         dz < (depth obj1 / 2 + depth obj2 / 2) * 0.7)"

text \<open>
  \<^verbatim>\<open>getElementById(id)\<close>. A document maps an id to its element, if any. The DOM's
  \<^verbatim>\<open>document.getElementById\<close> yields the element or \<^verbatim>\<open>null\<close>; the helper logs an
  error when the result is falsy and returns the result as it is. The console is the list
  of logged lines.
\<close>

datatype 'e js_value = Undefined | Null | Element 'e

definition document_getElementById :: "(string \<Rightarrow> 'e option) \<Rightarrow> string \<Rightarrow> 'e js_value" where
  "document_getElementById doc ident = (case doc ident of None \<Rightarrow> Null | Some e \<Rightarrow> Element e)"

fun truthy :: "'e js_value \<Rightarrow> bool" where
  "truthy Undefined = False"
| "truthy Null = False"
| "truthy (Element e) = True"

definition getElementById ::
  "(string \<Rightarrow> 'e option) \<Rightarrow> string list \<Rightarrow> string \<Rightarrow> 'e js_value \<times> string list" where
  "getElementById doc console ident =
     (let element = document_getElementById doc ident
      in if \<not> truthy element
         then (element, console @ [''Element with ID \"'' @ ident @ ''\" not found''])
         else (element, console))"

section \<open>player.js\<close>

definition Player_constructor :: Player where
  "Player_constructor =
     \<lparr>Body.position = vec 0 0 0, Body.width = 1, height = 2, depth = 1.5,
      Player.velocity = vec 0 0 0, speed = 0.10, canJump = True, isJumping = False,
      jumpSpeed = 0.2, playerHeight = 1, isInvincible = False, invincibleTime = 0,
      blinkTime = 0, isVisible = True, object_visible = True\<rparr>"

text \<open>\<^verbatim>\<open>create()\<close>: builds the meshes and puts the player at \<open>(0, playerHeight, 0)\<close>.\<close>

definition Player_create :: "Player \<Rightarrow> Player" where
  "Player_create p = p\<lparr>Body.position := vec 0 (playerHeight p) 0\<rparr>"

text \<open>
  \<^verbatim>\<open>update(deltaTime)\<close>, in the three parts its comments name: the move with the
  clamp to the road area, the jump, and the invincibility timer. The rotation of the
  rendering object is not modelled.
\<close>

definition Player_move :: "Player \<Rightarrow> Player" where
  "Player_move p =
     (let pos0 = Body.position p;
          pos1 = pos0\<lparr>X := X pos0 + X (Player.velocity p)\<rparr>;
          pos2 = pos1\<lparr>Z := Z pos1 + Z (Player.velocity p)\<rparr>;
          pos3 = pos2\<lparr>X := max (- 15) (min 15 (X pos2))\<rparr>
      in p\<lparr>Body.position := pos3\<rparr>)"

definition Player_jump :: "Player \<Rightarrow> Player" where
  "Player_jump p =
     (if isJumping p then
        (let q1 = p\<lparr>Body.position :=
                    (Body.position p)\<lparr>Y := Y (Body.position p) + Y (Player.velocity p)\<rparr>\<rparr>;
             q2 = q1\<lparr>Player.velocity :=
                    (Player.velocity q1)\<lparr>Y := Y (Player.velocity q1) - 0.01\<rparr>\<rparr>
         in if Y (Body.position q2) \<le> playerHeight q2
            then q2\<lparr>Body.position := (Body.position q2)\<lparr>Y := playerHeight q2\<rparr>,
                    isJumping := False,
                    Player.velocity := (Player.velocity q2)\<lparr>Y := 0\<rparr>,
                    canJump := True\<rparr>
            else q2)
      else p)"

definition Player_invincibility :: "Player \<Rightarrow> real \<Rightarrow> Player" where
  "Player_invincibility p deltaTime =
     (if isInvincible p then
        (let r1 = p\<lparr>invincibleTime := invincibleTime p + deltaTime,
                     blinkTime := blinkTime p + deltaTime\<rparr>;
             r2 = (if blinkTime r1 > 0.1
                   then r1\<lparr>blinkTime := 0, isVisible := \<not> isVisible r1,
                           object_visible := \<not> isVisible r1\<rparr>
                   else r1)
         in if invincibleTime r2 > 2
            then r2\<lparr>isInvincible := False, object_visible := True\<rparr>
            else r2)
      else p)"

definition Player_update :: "Player \<Rightarrow> real \<Rightarrow> Player" where
  "Player_update p deltaTime = Player_invincibility (Player_jump (Player_move p)) deltaTime"

definition Player_startJump :: "Player \<Rightarrow> Player" where
  "Player_startJump p =
     (if \<not> isJumping p
      then p\<lparr>isJumping := True,
              Player.velocity := (Player.velocity p)\<lparr>Y := jumpSpeed p\<rparr>,
              canJump := False\<rparr>
      else p)"

definition Player_makeInvincible :: "Player \<Rightarrow> Player" where
  "Player_makeInvincible p = p\<lparr>isInvincible := True, invincibleTime := 0, blinkTime := 0\<rparr>"

definition Player_reset :: "Player \<Rightarrow> Player" where
  "Player_reset p =
     p\<lparr>Body.position := vec 0 (playerHeight p) 0, Player.velocity := vec 0 0 0,
       isJumping := False, canJump := True, isInvincible := False, object_visible := True\<rparr>"

section \<open>world/obstacles.js\<close>

text \<open>\<^verbatim>\<open>createNewspaper(scene, x, y, z, velocityX, velocityZ)\<close>, without the mesh.\<close>

definition createNewspaper :: "real \<Rightarrow> real \<Rightarrow> real \<Rightarrow> real \<Rightarrow> real \<Rightarrow> Newspaper" where
  "createNewspaper a b c velocityX velocityZ =
     \<lparr>Newspaper.position = vec a b c, Newspaper.velocity = vec velocityX 0.2 velocityZ,
      thrown = True, delivered = False\<rparr>"

section \<open>game.js\<close>

text \<open>
  The constructor followed by \<^verbatim>\<open>init()\<close>. The lists produced by the (randomised)
  world generator and the walls of the scene are parameters.
\<close>

definition Game_init ::
  "Obstacle list \<Rightarrow> Mailbox list \<Rightarrow> Porch list \<Rightarrow> (Vector3 \<Rightarrow> bool) list \<Rightarrow> Game" where
  "Game_init obs mbs pos ws =
     \<lparr>isActive = False, score = 0, papers = 100, lives = 3,
      obstacles = obs, mailboxes = mbs, porches = pos, newspapers = [],
      gameTime = 0, player = Player_create Player_constructor,
      keys = (\<lambda>k. False), walls = ws\<rparr>"

definition Game_startGame :: "Game \<Rightarrow> Game" where
  "Game_startGame g = g\<lparr>isActive := True, score := 0, papers := 100, lives := 3\<rparr>"

definition Game_restartGame :: "Game \<Rightarrow> Game" where
  "Game_restartGame g =
     g\<lparr>player := Player_reset (player g), isActive := True, score := 0, papers := 100,
       lives := 3, gameTime := 0, newspapers := []\<rparr>"

definition Game_endGame :: "Game \<Rightarrow> Game" where
  "Game_endGame g = g\<lparr>isActive := False\<rparr>"

text \<open>\<^verbatim>\<open>Game.createNewspaper(x, y, z, velocityX, velocityZ)\<close>.\<close>

definition Game_createNewspaper :: "Game \<Rightarrow> real \<Rightarrow> real \<Rightarrow> real \<Rightarrow> real \<Rightarrow> real \<Rightarrow> Game" where
  "Game_createNewspaper g a b c velocityX velocityZ =
     (if papers g \<le> 0 then g
      else (let g1 = g\<lparr>papers := papers g - 1\<rparr>;
                newspaper = createNewspaper a b c velocityX velocityZ
            in g1\<lparr>newspapers := newspapers g1 @ [newspaper]\<rparr>))"

text \<open>
  \<^verbatim>\<open>throwNewspaper()\<close>. The throw direction is computed by the rendering library from
  the rotation of the player's object; its \<open>x\<close> and \<open>z\<close> components are parameters here.
\<close>

definition Game_throwNewspaper :: "Game \<Rightarrow> real \<Rightarrow> real \<Rightarrow> Game" where
  "Game_throwNewspaper g throwDirection_x throwDirection_z =
     Game_createNewspaper g
       (X (Body.position (player g)) + throwDirection_x * 0.5)
       (Y (Body.position (player g)) + 1)
       (Z (Body.position (player g)) + throwDirection_z * 0.5)
       (throwDirection_x * 0.5)
       (throwDirection_z * 0.5)"

text \<open>\<^verbatim>\<open>isPlayerOnHill()\<close>: the loop returns at the first hill under the player.\<close>

fun isPlayerOnHill_loop :: "Player \<Rightarrow> Obstacle list \<Rightarrow> bool" where
  "isPlayerOnHill_loop p [] = False"
| "isPlayerOnHill_loop p (obstacle # rest) =
     (if type obstacle = Hill then
        (let dx = \<bar>X (Body.position p) - X (Body.position obstacle)\<bar>;
             dz = \<bar>Z (Body.position p) - Z (Body.position obstacle)\<bar>
         in if dx < Body.width obstacle / 2 \<and> dz < depth obstacle / 2 then True
            else isPlayerOnHill_loop p rest)
      else isPlayerOnHill_loop p rest)"

definition Game_isPlayerOnHill :: "Game \<Rightarrow> bool" where
  "Game_isPlayerOnHill g = isPlayerOnHill_loop (player g) (obstacles g)"

text \<open>
  \<^verbatim>\<open>checkObstacleCollisions()\<close>. \<open>collide\<close> is the body of the \<^verbatim>\<open>if\<close> that detects a
  collision; the loop returns at the first obstacle hit. The result pairs the returned
  boolean with the game afterwards.
\<close>

definition collide :: "Game \<Rightarrow> Game" where
  "collide g =
     (let g1 = g\<lparr>score := score g - 5\<rparr>;
          g2 = g1\<lparr>lives := lives g1 - 1\<rparr>;
          g3 = g2\<lparr>player := Player_makeInvincible (player g2)\<rparr>
      in if lives g3 \<le> 0 then Game_endGame g3 else g3)"

fun checkObstacleCollisions_loop :: "Obstacle list \<Rightarrow> Game \<Rightarrow> bool \<times> Game" where
  "checkObstacleCollisions_loop [] g = (False, g)"
| "checkObstacleCollisions_loop (obstacle # rest) g =
     (if type obstacle = Hill then checkObstacleCollisions_loop rest g
      else (let dx = \<bar>X (Body.position (player g)) - X (Body.position obstacle)\<bar>;
                dz = \<bar>Z (Body.position (player g)) - Z (Body.position obstacle)\<bar>
            in if dx < (Body.width (player g) / 2 + Body.width obstacle / 2) * 0.7 \<and>
                  dz < (depth (player g) / 2 + depth obstacle / 2) * 0.7
               then (True, collide g)
               else checkObstacleCollisions_loop rest g))"

definition Game_checkObstacleCollisions :: "Game \<Rightarrow> bool \<times> Game" where
  "Game_checkObstacleCollisions g =
     (if isInvincible (player g) then (False, g)
      else checkObstacleCollisions_loop (obstacles g) g)"

text \<open>
  \<^verbatim>\<open>updateNewspapers()\<close>. Inside the loop the source holds one newspaper object and
  \<^verbatim>\<open>this.score\<close>; the three inner loops below work on that pair. Each inner loop
  stops (\<^verbatim>\<open>break\<close>) at the first wall, mailbox or porch whose test succeeds.
\<close>

fun checkWalls_loop :: "(Vector3 \<Rightarrow> bool) list \<Rightarrow> Vector3 \<Rightarrow> Newspaper \<Rightarrow> Newspaper" where
  "checkWalls_loop [] prevPos newspaper = newspaper"
| "checkWalls_loop (wall # rest) prevPos newspaper =
     (if wall (Newspaper.position newspaper)
      then newspaper\<lparr>Newspaper.position := prevPos, thrown := False\<rparr>
      else checkWalls_loop rest prevPos newspaper)"

fun checkMailboxes_loop :: "Mailbox list \<Rightarrow> Newspaper \<times> int \<Rightarrow> Newspaper \<times> int" where
  "checkMailboxes_loop [] (newspaper, sc) = (newspaper, sc)"
| "checkMailboxes_loop (mailbox # rest) (newspaper, sc) =
     (let dx = \<bar>X (Newspaper.position newspaper) - X (Mailbox.position mailbox)\<bar>;
          dz = \<bar>Z (Newspaper.position newspaper) - Z (Mailbox.position mailbox)\<bar>;
          dy = \<bar>Y (Newspaper.position newspaper) - 1.2\<bar>
      in if dx < 0.75 \<and> dz < 0.75 \<and> dy < 1.0
         then (newspaper\<lparr>delivered := True, thrown := False,
                         Newspaper.velocity := vec 0 0 0,
                         Newspaper.position := (Newspaper.position newspaper)\<lparr>Y := 1.2\<rparr>\<rparr>,
               sc + 20)
         else checkMailboxes_loop rest (newspaper, sc))"

fun checkPorches_loop :: "Porch list \<Rightarrow> Newspaper \<times> int \<Rightarrow> Newspaper \<times> int" where
  "checkPorches_loop [] (newspaper, sc) = (newspaper, sc)"
| "checkPorches_loop (porch # rest) (newspaper, sc) =
     (let dx = \<bar>X (Newspaper.position newspaper) - X (Porch.position porch)\<bar>;
          dz = \<bar>Z (Newspaper.position newspaper) - Z (Porch.position porch)\<bar>
      in if dx < Porch.width porch \<and> dz < Porch.len porch \<and>
            Y (Newspaper.position newspaper) < 0.5
         then (newspaper\<lparr>delivered := True, thrown := False,
                         Newspaper.velocity := vec 0 0 0,
                         Newspaper.position := (Newspaper.position newspaper)\<lparr>Y := 0.2\<rparr>\<rparr>,
               sc + 10)
         else checkPorches_loop rest (newspaper, sc))"

text \<open>
  The first statements of the airborne branch: remember the previous position, apply
  gravity, move, and test the walls. The result is the newspaper whose position the
  delivery checks then compare with the mailboxes and porches.
\<close>

definition moveNewspaper :: "(Vector3 \<Rightarrow> bool) list \<Rightarrow> Newspaper \<Rightarrow> Newspaper" where
  "moveNewspaper ws newspaper =
     (let prevPos = Newspaper.position newspaper;
          n1 = newspaper\<lparr>Newspaper.velocity :=
                 (Newspaper.velocity newspaper)\<lparr>Y := Y (Newspaper.velocity newspaper) - 0.015\<rparr>\<rparr>;
          n2 = n1\<lparr>Newspaper.position := Vector3_add (Newspaper.position n1) (Newspaper.velocity n1)\<rparr>
      in checkWalls_loop ws prevPos n2)"

text \<open>The body of the airborne branch, up to the ground collision.\<close>

definition flyNewspaper ::
  "(Vector3 \<Rightarrow> bool) list \<Rightarrow> Mailbox list \<Rightarrow> Porch list \<Rightarrow> Newspaper \<times> int \<Rightarrow> Newspaper \<times> int" where
  "flyNewspaper ws mbs pos st =
     (let n3 = moveNewspaper ws (fst st);
          (n4, s4) = checkMailboxes_loop mbs (n3, snd st);
          (n5, s5) = checkPorches_loop pos (n4, s4);
          n6 = (if Y (Newspaper.position n5) \<le> 0.05
                then n5\<lparr>Newspaper.position := (Newspaper.position n5)\<lparr>Y := 0.05\<rparr>,
                        thrown := False, Newspaper.velocity := vec 0 0 0\<rparr>
                else n5)
      in (n6, s5))"

text \<open>
  The statement \<^verbatim>\<open>if (newspaper.thrown && !newspaper.delivered) { ... }\<close> on one
  newspaper and the score.
\<close>

definition airborneUpdate ::
  "(Vector3 \<Rightarrow> bool) list \<Rightarrow> Mailbox list \<Rightarrow> Porch list \<Rightarrow> Newspaper \<times> int \<Rightarrow> Newspaper \<times> int" where
  "airborneUpdate ws mbs pos st =
     (if thrown (fst st) \<and> \<not> delivered (fst st) then flyNewspaper ws mbs pos st else st)"

text \<open>
  One pass of the \<^verbatim>\<open>for\<close> loop, at index \<open>i\<close>: the airborne branch, whose effect on the
  newspaper object is written back to the list, then the removal
  (\<^verbatim>\<open>this.newspapers.splice(i, 1)\<close>).
\<close>

definition updateNewspaperAt :: "nat \<Rightarrow> Game \<Rightarrow> Game" where
  "updateNewspaperAt i g =
     (let newspaper = newspapers g ! i;
          (n', s') = airborneUpdate (walls g) (mailboxes g) (porches g) (newspaper, score g);
          g1 = g\<lparr>newspapers := (newspapers g)[i := n'], score := s'\<rparr>
      in if \<not> thrown n' \<and> \<not> delivered n' \<and> gameTime g1 > 30
         then g1\<lparr>newspapers := take i (newspapers g1) @ drop (Suc i) (newspapers g1)\<rparr>
         else g1)"

text \<open>
  \<^verbatim>\<open>for (let i = this.newspapers.length - 1; i >= 0; i--)\<close>: the counter \<open>Suc i\<close> stands
  for "index \<open>i\<close> is next"; the index is always inside the list, because a removal at
  \<open>i\<close> only shifts the entries after \<open>i\<close>, which the loop has already visited.
\<close>

fun updateNewspapers_loop :: "nat \<Rightarrow> Game \<Rightarrow> Game" where
  "updateNewspapers_loop 0 g = g"
| "updateNewspapers_loop (Suc i) g = updateNewspapers_loop i (updateNewspaperAt i g)"

definition Game_updateNewspapers :: "Game \<Rightarrow> Game" where
  "Game_updateNewspapers g =
     (if length (newspapers g) = 0 then g
      else updateNewspapers_loop (length (newspapers g)) g)"

text \<open>
  \<^verbatim>\<open>animate()\<close> for one frame; \<open>deltaTime\<close> is what \<^verbatim>\<open>clock.getDelta()\<close> returned.
  Camera and rendering are left out.
\<close>

definition Game_animate :: "Game \<Rightarrow> real \<Rightarrow> Game" where
  "Game_animate g deltaTime =
     (if isActive g then
        (let g1 = g\<lparr>gameTime := gameTime g + deltaTime\<rparr>;
             (hit, g2) = Game_checkObstacleCollisions g1;
             g3 = (if \<not> hit then g2\<lparr>player := Player_update (player g2) deltaTime\<rparr> else g2);
             g4 = Game_updateNewspapers g3
         in if papers g4 \<le> 0 \<and> length (newspapers g4) = 0 \<and> lives g4 > 0
            then Game_endGame g4 else g4)
      else g)"

section \<open>controls.js\<close>

definition Controls_handleSpecialKeyActions :: "Game \<Rightarrow> key \<Rightarrow> real \<Rightarrow> real \<Rightarrow> Game" where
  "Controls_handleSpecialKeyActions g k throwDirection_x throwDirection_z =
     (if \<not> isActive g then g
      else (let g1 = (if (k = ArrowUp \<or> k = KeyW) \<and> canJump (player g) \<and> Game_isPlayerOnHill g
                      then g\<lparr>player := Player_startJump (player g), score := score g + 20\<rparr>
                      else g)
            in if k = Space \<and> papers g1 > 0
               then Game_throwNewspaper g1 throwDirection_x throwDirection_z
               else g1))"

definition Controls_handleKeyDown :: "Game \<Rightarrow> key \<Rightarrow> real \<Rightarrow> real \<Rightarrow> Game" where
  "Controls_handleKeyDown g k throwDirection_x throwDirection_z =
     Controls_handleSpecialKeyActions (g\<lparr>keys := (keys g)(k := True)\<rparr>) k
       throwDirection_x throwDirection_z"

definition Controls_handleKeyUp :: "Game \<Rightarrow> key \<Rightarrow> Game" where
  "Controls_handleKeyUp g k = g\<lparr>keys := (keys g)(k := False)\<rparr>"

text \<open>\<^verbatim>\<open>Controls.update()\<close>, run every 16 ms: it writes the player's velocity only.\<close>

definition Controls_update :: "Game \<Rightarrow> Game" where
  "Controls_update g =
     (if \<not> isActive g then g
      else (let p = player g;
                v1 = (Player.velocity p)\<lparr>X := 0\<rparr>;
                v2 = v1\<lparr>Z := speed p\<rparr>;
                v3 = (if keys g ArrowLeft \<or> keys g KeyA then v2\<lparr>X := speed p\<rparr> else v2);
                v4 = (if keys g ArrowRight \<or> keys g KeyD then v3\<lparr>X := - speed p\<rparr> else v3)
            in g\<lparr>player := p\<lparr>Player.velocity := v4\<rparr>\<rparr>))"

section \<open>Sessions\<close>

text \<open>
  What can happen to a running game: an animation frame, a tick of the controls timer, a
  key going down (with the throw direction the rendering library would compute for it) or
  up, and a click on the restart button.
\<close>

datatype event =
    Frame real
  | ControlsTick
  | KeyDown key real real
  | KeyUp key
  | RestartClick

fun handle :: "event \<Rightarrow> Game \<Rightarrow> Game" where
  "handle (Frame deltaTime) g = Game_animate g deltaTime"
| "handle ControlsTick g = Controls_update g"
| "handle (KeyDown k tx tz) g = Controls_handleKeyDown g k tx tz"
| "handle (KeyUp k) g = Controls_handleKeyUp g k"
| "handle RestartClick g = Game_restartGame g"

text \<open>
  The reachable states of a session: the game is initialised on some generated world,
  keys may already be held down, the start button starts it (\<^verbatim>\<open>startGame\<close> hides the
  start screen that carries the button, so a session is started once), and events follow
  in any order.
\<close>

inductive reachable :: "Game \<Rightarrow> bool" where
  start: "reachable (Game_startGame ((Game_init obs mbs pos ws)\<lparr>keys := ks\<rparr>))"
| step: "reachable g \<Longrightarrow> reachable (handle ev g)"

fun run :: "event list \<Rightarrow> Game \<Rightarrow> Game" where
  "run [] g = g"
| "run (ev # evs) g = run evs (handle ev g)"

text \<open>The delivery zones of the claims, as tests on a position.\<close>

definition inMailboxZone :: "Vector3 \<Rightarrow> Mailbox \<Rightarrow> bool" where
  "inMailboxZone p mailbox =
     (\<bar>X p - X (Mailbox.position mailbox)\<bar> < 0.75 \<and>
      \<bar>Z p - Z (Mailbox.position mailbox)\<bar> < 0.75 \<and>
      \<bar>Y p - 1.2\<bar> < 1.0)"

definition inPorchZone :: "Vector3 \<Rightarrow> Porch \<Rightarrow> bool" where
  "inPorchZone p porch =
     (\<bar>X p - X (Porch.position porch)\<bar> < Porch.width porch \<and>
      \<bar>Z p - Z (Porch.position porch)\<bar> < Porch.len porch \<and>
      Y p < 0.5)"

text \<open>The player's lane: \<open>x\<close> between \<open>-15\<close> and \<open>15\<close>.\<close>

definition inLane :: "Player \<Rightarrow> bool" where
  "inLane p = (- 15 \<le> X (Body.position p) \<and> X (Body.position p) \<le> 15)"

section \<open>The newspaper loop as a sweep, and the life of one newspaper\<close>

text \<open>
  What the backward loop of \<^verbatim>\<open>updateNewspapers\<close> computes, written as a recursion on
  the list: the entries after the head are handled first, then the head, which is kept
  or dropped. \<open>t\<close> is \<^verbatim>\<open>gameTime\<close>. It is proved below to agree with the loop.
\<close>

fun sweep ::
  "(Vector3 \<Rightarrow> bool) list \<Rightarrow> Mailbox list \<Rightarrow> Porch list \<Rightarrow> real \<Rightarrow>
   Newspaper list \<Rightarrow> int \<Rightarrow> Newspaper list \<times> int" where
  "sweep ws mbs pos t [] s = ([], s)"
| "sweep ws mbs pos t (n # ns) s =
     (let (ns', s1) = sweep ws mbs pos t ns s;
          (n', s2) = airborneUpdate ws mbs pos (n, s1)
      in (if \<not> thrown n' \<and> \<not> delivered n' \<and> t > 30 then ns' else n' # ns', s2))"

text \<open>
  The points one newspaper earns in each of \<open>k\<close> consecutive frames (the score is reset
  to \<open>0\<close> before each frame, so that each entry is that frame's award).
\<close>

fun awards ::
  "(Vector3 \<Rightarrow> bool) list \<Rightarrow> Mailbox list \<Rightarrow> Porch list \<Rightarrow> nat \<Rightarrow> Newspaper \<Rightarrow> int list" where
  "awards ws mbs pos 0 n = []"
| "awards ws mbs pos (Suc k) n =
     snd (airborneUpdate ws mbs pos (n, 0)) #
       awards ws mbs pos k (fst (airborneUpdate ws mbs pos (n, 0)))"

text \<open>
  The newspaper updates of consecutive frames: before each one the frame has advanced the
  clock, here to the next entry of \<open>ts\<close>. Whatever else a frame does leaves the
  newspapers alone (the frame lemma for the newspapers below).
\<close>

fun updates :: "real list \<Rightarrow> Game \<Rightarrow> Game" where
  "updates [] g = g"
| "updates (t # ts) g = updates ts (Game_updateNewspapers (g\<lparr>gameTime := t\<rparr>))"

section \<open>Example worlds\<close>

text \<open>
  The first house on the left of block 0, as \<^verbatim>\<open>createHouse\<close> registers it: the house
  stands at \<open>x = -16\<close>, \<open>z = 3.6\<close> with base width \<open>6\<close> and base length \<open>5\<close>, so its mailbox
  is at \<open>(-13, 0, 6.1)\<close> and its porch at \<open>(-16, 0.2, 7.1)\<close> with width \<open>6\<close> and length \<open>3\<close>.
\<close>

definition example_mailbox :: Mailbox where
  "example_mailbox = \<lparr>Mailbox.position = vec (- 13) 0 6.1, Mailbox.width = 1, Mailbox.len = 0.5\<rparr>"

definition example_porch :: Porch where
  "example_porch = \<lparr>Porch.position = vec (- 16) 0.2 7.1, Porch.width = 6, Porch.len = 3\<rparr>"

text \<open>A newspaper falling beside that mailbox, above the porch zone's floor.\<close>

definition paper_at_mailbox :: Newspaper where
  "paper_at_mailbox =
     \<lparr>Newspaper.position = vec (- 13) 0.415 6.1, Newspaper.velocity = vec 0 0 0,
      thrown = True, delivered = False\<rparr>"

text \<open>A newspaper falling onto the middle of the porch, away from the mailbox.\<close>

definition paper_at_porch :: Newspaper where
  "paper_at_porch =
     \<lparr>Newspaper.position = vec (- 16) 0.415 7.1, Newspaper.velocity = vec 0 0 0,
      thrown = True, delivered = False\<rparr>"

text \<open>A newspaper about to hit the ground in the street.\<close>

definition paper_landing :: Newspaper where
  "paper_landing =
     \<lparr>Newspaper.position = vec 3 0.1 5, Newspaper.velocity = vec 0.5 (- 0.2) 0,
      thrown = True, delivered = False\<rparr>"

definition example_car :: Obstacle where
  "example_car =
     \<lparr>Body.position = vec 0.5 0 1, Body.width = 2, height = 1.7, depth = 4, type = Car\<rparr>"

definition example_hill :: Obstacle where
  "example_hill =
     \<lparr>Body.position = vec 0 0 0, Body.width = 4, height = 1, depth = 4, type = Hill\<rparr>"

text \<open>A started game on an empty street with that house.\<close>

definition example_game :: Game where
  "example_game = Game_startGame (Game_init [] [example_mailbox] [example_porch] [])"

text \<open>A started game whose player stands on a hill, with a car right ahead.\<close>

definition crash_game :: Game where
  "crash_game =
     Game_startGame (Game_init [example_hill, example_car] [example_mailbox] [example_porch] [])"

text \<open>Fifty-one, and all hundred, newspapers thrown right after the start.\<close>

definition fifty_one_thrown :: Game where
  "fifty_one_thrown = run (replicate 51 (KeyDown Space 1 0)) example_game"

definition all_thrown :: Game where
  "all_thrown = run (replicate 100 (KeyDown Space 1 0)) example_game"

text \<open>
  The crash game after two collisions: each collision frame is followed by a long frame
  in which the invincibility runs out.
\<close>

definition last_life :: Game where
  "last_life = run [Frame 0.016, Frame 3, Frame 0.016, Frame 3] crash_game"

text \<open>Thirty-one seconds into a game, with a thrown newspaper just above the street.\<close>

definition landing_game :: Game where
  "landing_game = example_game\<lparr>gameTime := 31, newspapers := [paper_landing]\<rparr>"

text \<open>
  A late throw: one frame of 30.5 seconds, then the space bar (throw direction \<open>(1, 0)\<close>),
  then \<open>k\<close> frames of 16 ms. \<open>flight k\<close> is where a newspaper thrown from the start
  position is after \<open>k\<close> frames in the air, and \<open>in_flight k\<close> the game around it.
\<close>

definition flight :: "nat \<Rightarrow> Newspaper" where
  "flight k =
     \<lparr>Newspaper.position = vec (0.5 + 0.5 * real k) (2 + 0.2 * real k - 0.0075 * real k * (real k + 1)) 0,
      Newspaper.velocity = vec 0.5 (0.2 - 0.015 * real k) 0,
      thrown = True, delivered = False\<rparr>"

definition late_throw :: "nat \<Rightarrow> Game" where
  "late_throw k = run ([Frame 30.5, KeyDown Space 1 0] @ replicate k (Frame 0.016)) example_game"

definition in_flight :: "nat \<Rightarrow> Game" where
  "in_flight k = example_game\<lparr>gameTime := 30.5 + 0.016 * real k, papers := 99,
                    keys := (\<lambda>k. k = Space), newspapers := [flight k]\<rparr>"

text \<open>
  The street with the first house on either side, as the generator lays them out: the
  right-hand house stands at \<open>x = 16\<close>, so its mailbox is at \<open>(13, 0, 1.1)\<close> and its
  porch at \<open>(16, 0.2, 0.1)\<close>. A newspaper thrown to the right from the start position
  (\<open>porch_throw k\<close>: the space bar, then \<open>k\<close> frames of 16 ms) flies for 31 frames
  (\<open>street_flight\<close>) and comes down on that porch in the 32nd (\<open>street_landed\<close>).
\<close>

definition right_mailbox :: Mailbox where
  "right_mailbox = \<lparr>Mailbox.position = vec 13 0 1.1, Mailbox.width = 1, Mailbox.len = 0.5\<rparr>"

definition right_porch :: Porch where
  "right_porch = \<lparr>Porch.position = vec 16 0.2 0.1, Porch.width = 6, Porch.len = 3\<rparr>"

definition street_game :: Game where
  "street_game =
     Game_startGame (Game_init [] [example_mailbox, right_mailbox] [example_porch, right_porch] [])"

definition porch_throw :: "nat \<Rightarrow> Game" where
  "porch_throw k = run (KeyDown Space 1 0 # replicate k (Frame 0.016)) street_game"

definition street_flight :: "nat \<Rightarrow> Game" where
  "street_flight k = street_game\<lparr>gameTime := 0.016 * real k, papers := 99,
                    keys := (\<lambda>k. k = Space), newspapers := [flight k]\<rparr>"

definition porch_paper :: Newspaper where
  "porch_paper =
     \<lparr>Newspaper.position = vec 16.5 0.2 0, Newspaper.velocity = vec 0 0 0,
      thrown = False, delivered = True\<rparr>"

definition street_landed :: "nat \<Rightarrow> Game" where
  "street_landed k = street_game\<lparr>gameTime := 0.016 * real k, papers := 99,
                    keys := (\<lambda>k. k = Space), newspapers := [porch_paper], score := 10\<rparr>"

text \<open>A player at the right edge of the lane, still steering right.\<close>

definition far_right :: Player where
  "far_right = (Player_create Player_constructor)\<lparr>Body.position := vec 14.95 1 40, Player.velocity := vec 0.1 0 0.1\<rparr>"

text \<open>A page that has the score and papers read-outs but no lives read-out.\<close>

definition page :: "string \<Rightarrow> nat option" where
  "page = [''score'' \<mapsto> 1, ''papers'' \<mapsto> 2]"

section \<open>The inner loops of the newspaper update\<close>

text \<open>Each inner loop acts at the first entry whose test succeeds, so it acts exactly
  when some entry's test succeeds.\<close>

lemma checkWalls_loop_eq:
  "checkWalls_loop ws prevPos n =
     (if \<exists>w \<in> set ws. w (Newspaper.position n)
      then n\<lparr>Newspaper.position := prevPos, thrown := False\<rparr> else n)"
  by (induction ws) auto

lemma checkMailboxes_loop_eq:
  "checkMailboxes_loop mbs (n, s) =
     (if \<exists>m \<in> set mbs. inMailboxZone (Newspaper.position n) m
      then (n\<lparr>delivered := True, thrown := False, Newspaper.velocity := vec 0 0 0,
               Newspaper.position := (Newspaper.position n)\<lparr>Y := 1.2\<rparr>\<rparr>, s + 20)
      else (n, s))"
  by (induction mbs) (auto simp: inMailboxZone_def Let_def)

lemma checkPorches_loop_eq:
  "checkPorches_loop pos (n, s) =
     (if \<exists>q \<in> set pos. inPorchZone (Newspaper.position n) q
      then (n\<lparr>delivered := True, thrown := False, Newspaper.velocity := vec 0 0 0,
               Newspaper.position := (Newspaper.position n)\<lparr>Y := 0.2\<rparr>\<rparr>, s + 10)
      else (n, s))"
  by (induction pos) (auto simp: inPorchZone_def Let_def)

lemma not_inPorchZone_high: "0.5 \<le> Y p \<Longrightarrow> \<not> inPorchZone p q"
  by (simp add: inPorchZone_def)

lemma flyNewspaper_mailbox:
  assumes "\<exists>m \<in> set mbs. inMailboxZone (Newspaper.position (moveNewspaper ws n)) m"
  shows "flyNewspaper ws mbs pos (n, s) =
     ((moveNewspaper ws n)\<lparr>delivered := True, thrown := False, Newspaper.velocity := vec 0 0 0,
        Newspaper.position := (Newspaper.position (moveNewspaper ws n))\<lparr>Y := 1.2\<rparr>\<rparr>, s + 20)"
  using assms
  by (simp add: flyNewspaper_def checkMailboxes_loop_eq checkPorches_loop_eq not_inPorchZone_high Let_def)

lemma flyNewspaper_porch:
  assumes "\<not> (\<exists>m \<in> set mbs. inMailboxZone (Newspaper.position (moveNewspaper ws n)) m)"
    and "\<exists>q \<in> set pos. inPorchZone (Newspaper.position (moveNewspaper ws n)) q"
  shows "flyNewspaper ws mbs pos (n, s) =
     ((moveNewspaper ws n)\<lparr>delivered := True, thrown := False, Newspaper.velocity := vec 0 0 0,
        Newspaper.position := (Newspaper.position (moveNewspaper ws n))\<lparr>Y := 0.2\<rparr>\<rparr>, s + 10)"
  using assms
  by (simp add: flyNewspaper_def checkMailboxes_loop_eq checkPorches_loop_eq Let_def)

lemma flyNewspaper_miss:
  assumes "\<not> (\<exists>m \<in> set mbs. inMailboxZone (Newspaper.position (moveNewspaper ws n)) m)"
    and "\<not> (\<exists>q \<in> set pos. inPorchZone (Newspaper.position (moveNewspaper ws n)) q)"
  shows "flyNewspaper ws mbs pos (n, s) =
     ((if Y (Newspaper.position (moveNewspaper ws n)) \<le> 0.05
       then (moveNewspaper ws n)\<lparr>Newspaper.position := (Newspaper.position (moveNewspaper ws n))\<lparr>Y := 0.05\<rparr>,
                thrown := False, Newspaper.velocity := vec 0 0 0\<rparr>
       else moveNewspaper ws n), s)"
  using assms
  by (simp add: flyNewspaper_def checkMailboxes_loop_eq checkPorches_loop_eq Let_def)

lemma moveNewspaper_delivered: "delivered (moveNewspaper ws n) = delivered n"
  by (simp add: moveNewspaper_def checkWalls_loop_eq Let_def)

lemma flyNewspaper_score:
  "snd (flyNewspaper ws mbs pos (n, s)) =
     s + (if \<exists>m \<in> set mbs. inMailboxZone (Newspaper.position (moveNewspaper ws n)) m then 20
          else if \<exists>q \<in> set pos. inPorchZone (Newspaper.position (moveNewspaper ws n)) q then 10
          else 0)"
  by (simp add: flyNewspaper_mailbox flyNewspaper_porch flyNewspaper_miss)

lemma flyNewspaper_delivered:
  "delivered (fst (flyNewspaper ws mbs pos (n, s))) =
     (delivered n \<or> (\<exists>m \<in> set mbs. inMailboxZone (Newspaper.position (moveNewspaper ws n)) m)
        \<or> (\<exists>q \<in> set pos. inPorchZone (Newspaper.position (moveNewspaper ws n)) q))"
proof (cases "\<exists>m \<in> set mbs. inMailboxZone (Newspaper.position (moveNewspaper ws n)) m")
  case True
  then show ?thesis by (simp add: flyNewspaper_mailbox)
next
  case nomb: False
  show ?thesis
  proof (cases "\<exists>q \<in> set pos. inPorchZone (Newspaper.position (moveNewspaper ws n)) q")
    case True
    with nomb show ?thesis by (simp add: flyNewspaper_porch)
  next
    case False
    with nomb show ?thesis by (simp add: flyNewspaper_miss moveNewspaper_delivered)
  qed
qed

lemma airborneUpdate_delivered_id: "delivered n \<Longrightarrow> airborneUpdate ws mbs pos (n, s) = (n, s)"
  by (simp add: airborneUpdate_def)

lemma airborneUpdate_grounded_id: "\<not> thrown n \<Longrightarrow> airborneUpdate ws mbs pos (n, s) = (n, s)"
  by (simp add: airborneUpdate_def)

section \<open>The newspaper loop\<close>

text \<open>The loop changes only the newspapers and the score, never lengthens the list, and
  computes the sweep.\<close>

lemma updateNewspaperAt_frame:
  "obstacles (updateNewspaperAt i g) = obstacles g"
  "mailboxes (updateNewspaperAt i g) = mailboxes g"
  "porches (updateNewspaperAt i g) = porches g"
  "walls (updateNewspaperAt i g) = walls g"
  "gameTime (updateNewspaperAt i g) = gameTime g"
  "papers (updateNewspaperAt i g) = papers g"
  "lives (updateNewspaperAt i g) = lives g"
  "isActive (updateNewspaperAt i g) = isActive g"
  "player (updateNewspaperAt i g) = player g"
  "keys (updateNewspaperAt i g) = keys g"
  by (simp_all add: updateNewspaperAt_def Let_def split_def)

lemma updateNewspaperAt_length:
  "length (newspapers (updateNewspaperAt i g)) \<le> length (newspapers g)"
  by (auto simp add: updateNewspaperAt_def Let_def split_def)

lemma updateNewspapers_loop_frame:
  "obstacles (updateNewspapers_loop k g) = obstacles g \<and>
   mailboxes (updateNewspapers_loop k g) = mailboxes g \<and>
   porches (updateNewspapers_loop k g) = porches g \<and>
   walls (updateNewspapers_loop k g) = walls g \<and>
   gameTime (updateNewspapers_loop k g) = gameTime g \<and>
   papers (updateNewspapers_loop k g) = papers g \<and>
   lives (updateNewspapers_loop k g) = lives g \<and>
   isActive (updateNewspapers_loop k g) = isActive g \<and>
   player (updateNewspapers_loop k g) = player g \<and>
   keys (updateNewspapers_loop k g) = keys g"
  by (induction k arbitrary: g) (simp_all add: updateNewspaperAt_frame)

lemma updateNewspapers_loop_length:
  "length (newspapers (updateNewspapers_loop k g)) \<le> length (newspapers g)"
proof (induction k arbitrary: g)
  case 0
  show ?case by simp
next
  case (Suc k)
  have "length (newspapers (updateNewspapers_loop k (updateNewspaperAt k g)))
          \<le> length (newspapers (updateNewspaperAt k g))"
    by (rule Suc.IH)
  also have "\<dots> \<le> length (newspapers g)"
    by (rule updateNewspaperAt_length)
  finally show ?case by simp
qed

lemma Game_updateNewspapers_frame:
  "obstacles (Game_updateNewspapers g) = obstacles g"
  "mailboxes (Game_updateNewspapers g) = mailboxes g"
  "porches (Game_updateNewspapers g) = porches g"
  "walls (Game_updateNewspapers g) = walls g"
  "gameTime (Game_updateNewspapers g) = gameTime g"
  "papers (Game_updateNewspapers g) = papers g"
  "lives (Game_updateNewspapers g) = lives g"
  "isActive (Game_updateNewspapers g) = isActive g"
  "player (Game_updateNewspapers g) = player g"
  "keys (Game_updateNewspapers g) = keys g"
  by (simp_all add: Game_updateNewspapers_def updateNewspapers_loop_frame)

lemma Game_updateNewspapers_length:
  "length (newspapers (Game_updateNewspapers g)) \<le> length (newspapers g)"
  by (simp add: Game_updateNewspapers_def updateNewspapers_loop_length)

lemma sweep_append:
  "sweep ws mbs pos t (xs @ ys) s =
     (fst (sweep ws mbs pos t xs (snd (sweep ws mbs pos t ys s))) @ fst (sweep ws mbs pos t ys s),
      snd (sweep ws mbs pos t xs (snd (sweep ws mbs pos t ys s))))"
  by (induction xs) (simp_all add: Let_def split_def)

lemma updateNewspaperAt_sweep:
  assumes "i < length (newspapers g)"
  shows "updateNewspaperAt i g =
     g\<lparr>newspapers := take i (newspapers g) @
          fst (sweep (walls g) (mailboxes g) (porches g) (gameTime g) [newspapers g ! i] (score g)) @
          drop (Suc i) (newspapers g),
       score := snd (sweep (walls g) (mailboxes g) (porches g) (gameTime g) [newspapers g ! i] (score g))\<rparr>"
  using assms
  by (simp add: updateNewspaperAt_def Let_def split_def upd_conv_take_nth_drop)

lemma updateNewspapers_loop_sweep:
  "k \<le> length (newspapers g) \<Longrightarrow>
   updateNewspapers_loop k g =
     g\<lparr>newspapers :=
          fst (sweep (walls g) (mailboxes g) (porches g) (gameTime g) (take k (newspapers g)) (score g))
            @ drop k (newspapers g),
       score := snd (sweep (walls g) (mailboxes g) (porches g) (gameTime g) (take k (newspapers g)) (score g))\<rparr>"
proof (induction k arbitrary: g)
  case 0
  then show ?case by simp
next
  case (Suc k)
  then have lt: "k < length (newspapers g)" by simp
  let ?g' = "updateNewspaperAt k g"
  let ?one = "sweep (walls g) (mailboxes g) (porches g) (gameTime g) [newspapers g ! k] (score g)"
  have news': "newspapers ?g' = take k (newspapers g) @ fst ?one @ drop (Suc k) (newspapers g)"
    and score': "score ?g' = snd ?one"
    by (simp_all add: updateNewspaperAt_sweep [OF lt])
  have len: "k \<le> length (newspapers ?g')"
    using lt by (simp add: news')
  have tk: "take k (newspapers ?g') = take k (newspapers g)"
    using lt by (simp add: news')
  have dr: "drop k (newspapers ?g') = fst ?one @ drop (Suc k) (newspapers g)"
    using lt by (simp add: news')
  have split: "take (Suc k) (newspapers g) = take k (newspapers g) @ [newspapers g ! k]"
    using lt by (simp add: take_Suc_conv_app_nth)
  have "updateNewspapers_loop (Suc k) g = updateNewspapers_loop k ?g'" by simp
  also have "\<dots> = ?g'\<lparr>newspapers :=
          fst (sweep (walls g) (mailboxes g) (porches g) (gameTime g) (take k (newspapers g)) (snd ?one))
            @ fst ?one @ drop (Suc k) (newspapers g),
       score := snd (sweep (walls g) (mailboxes g) (porches g) (gameTime g) (take k (newspapers g)) (snd ?one))\<rparr>"
    by (simp add: Suc.IH [OF len] updateNewspaperAt_frame tk dr score')
  also have "\<dots> = g\<lparr>newspapers :=
          fst (sweep (walls g) (mailboxes g) (porches g) (gameTime g) (take (Suc k) (newspapers g)) (score g))
            @ drop (Suc k) (newspapers g),
       score := snd (sweep (walls g) (mailboxes g) (porches g) (gameTime g) (take (Suc k) (newspapers g)) (score g))\<rparr>"
    unfolding split sweep_append
    by (simp add: updateNewspaperAt_sweep [OF lt])
  finally show ?case .
qed

lemma Game_updateNewspapers_sweep:
  "Game_updateNewspapers g =
     g\<lparr>newspapers := fst (sweep (walls g) (mailboxes g) (porches g) (gameTime g) (newspapers g) (score g)),
       score := snd (sweep (walls g) (mailboxes g) (porches g) (gameTime g) (newspapers g) (score g))\<rparr>"
proof (cases "newspapers g")
  case Nil
  then show ?thesis by (simp add: Game_updateNewspapers_def)
next
  case (Cons n ns)
  then have "Game_updateNewspapers g = updateNewspapers_loop (length (newspapers g)) g"
    by (simp add: Game_updateNewspapers_def)
  then show ?thesis
    by (simp add: updateNewspapers_loop_sweep)
qed

section \<open>The collision check\<close>

lemma checkObstacleCollisions_loop_hit:
  "fst (checkObstacleCollisions_loop obs g) =
     (\<exists>ob \<in> set obs. type ob \<noteq> Hill \<and> checkCollision (player g) ob)"
  by (induction obs) (auto simp: Let_def checkCollision_def)

lemma checkObstacleCollisions_loop_result:
  "snd (checkObstacleCollisions_loop obs g) =
     (if fst (checkObstacleCollisions_loop obs g) then collide g else g)"
  by (induction obs) (auto simp: Let_def)

lemma collide_fields:
  "lives (collide g) = lives g - 1"
  "score (collide g) = score g - 5"
  "player (collide g) = Player_makeInvincible (player g)"
  "isActive (collide g) = (isActive g \<and> 1 < lives g)"
  "papers (collide g) = papers g"
  "newspapers (collide g) = newspapers g"
  "obstacles (collide g) = obstacles g"
  "mailboxes (collide g) = mailboxes g"
  "porches (collide g) = porches g"
  "gameTime (collide g) = gameTime g"
  "walls (collide g) = walls g"
  "keys (collide g) = keys g"
  by (auto simp add: collide_def Let_def Game_endGame_def)

lemma Game_checkObstacleCollisions_fst:
  "fst (Game_checkObstacleCollisions g) =
     (\<not> isInvincible (player g) \<and>
      (\<exists>ob \<in> set (obstacles g). type ob \<noteq> Hill \<and> checkCollision (player g) ob))"
  by (simp add: Game_checkObstacleCollisions_def checkObstacleCollisions_loop_hit)

lemma Game_checkObstacleCollisions_snd:
  "snd (Game_checkObstacleCollisions g) =
     (if fst (Game_checkObstacleCollisions g) then collide g else g)"
  by (simp add: Game_checkObstacleCollisions_def checkObstacleCollisions_loop_result)

lemma crash_game_fields:
  "obstacles crash_game = [example_hill, example_car]"
  "lives crash_game = 3" "score crash_game = 0"
  "\<not> isInvincible (player crash_game)"
  "Body.position (player crash_game) = vec 0 1 0"
  "Body.width (player crash_game) = 1" "depth (player crash_game) = 1.5"
  by (simp_all add: crash_game_def Game_startGame_def Game_init_def Player_create_def
      Player_constructor_def)

lemma zones_at_mailbox:
  "inMailboxZone (Newspaper.position (moveNewspaper [] paper_at_mailbox)) example_mailbox"
  "inPorchZone (Newspaper.position (moveNewspaper [] paper_at_mailbox)) example_porch"
  by (simp_all add: moveNewspaper_def paper_at_mailbox_def Vector3_add_def vec_def Let_def
      inMailboxZone_def inPorchZone_def example_mailbox_def example_porch_def)

lemma zones_at_porch:
  "\<not> inMailboxZone (Newspaper.position (moveNewspaper [] paper_at_porch)) example_mailbox"
  "inPorchZone (Newspaper.position (moveNewspaper [] paper_at_porch)) example_porch"
  by (simp_all add: moveNewspaper_def paper_at_porch_def Vector3_add_def vec_def Let_def
      inMailboxZone_def inPorchZone_def example_mailbox_def example_porch_def)

section \<open>One animation frame\<close>

text \<open>The frame step, split by whether the collision check reports a hit, and what it
  does to each field.\<close>

lemma hit_gameTime:
  "fst (Game_checkObstacleCollisions (g\<lparr>gameTime := t\<rparr>)) = fst (Game_checkObstacleCollisions g)"
  by (simp add: Game_checkObstacleCollisions_fst)

lemma Game_animate_inactive: "\<not> isActive g \<Longrightarrow> Game_animate g dt = g"
  by (simp add: Game_animate_def)

lemma Game_animate_hit:
  assumes "isActive g" and "fst (Game_checkObstacleCollisions g)"
  shows "Game_animate g dt =
     (let g4 = Game_updateNewspapers (collide (g\<lparr>gameTime := gameTime g + dt\<rparr>))
      in if papers g4 \<le> 0 \<and> length (newspapers g4) = 0 \<and> lives g4 > 0
         then Game_endGame g4 else g4)"
proof -
  let ?g1 = "g\<lparr>gameTime := gameTime g + dt\<rparr>"
  have "Game_checkObstacleCollisions ?g1 = (True, collide ?g1)"
    using assms(2) hit_gameTime [where g = g and t = "gameTime g + dt"]
      Game_checkObstacleCollisions_snd [of ?g1]
    by (metis prod.collapse)
  then show ?thesis
    using assms(1) by (simp add: Game_animate_def Let_def)
qed

lemma Game_animate_miss:
  assumes "isActive g" and "\<not> fst (Game_checkObstacleCollisions g)"
  shows "Game_animate g dt =
     (let g4 = Game_updateNewspapers
                 (g\<lparr>gameTime := gameTime g + dt, player := Player_update (player g) dt\<rparr>)
      in if papers g4 \<le> 0 \<and> length (newspapers g4) = 0 \<and> lives g4 > 0
         then Game_endGame g4 else g4)"
proof -
  let ?g1 = "g\<lparr>gameTime := gameTime g + dt\<rparr>"
  have "Game_checkObstacleCollisions ?g1 = (False, ?g1)"
    using assms(2) hit_gameTime [where g = g and t = "gameTime g + dt"]
      Game_checkObstacleCollisions_snd [of ?g1]
    by (metis prod.collapse)
  then show ?thesis
    using assms(1) by (simp add: Game_animate_def Let_def)
qed

lemma Game_animate_lives:
  "lives (Game_animate g dt) =
     (if isActive g \<and> fst (Game_checkObstacleCollisions g) then lives g - 1 else lives g)"
  by (cases "isActive g"; cases "fst (Game_checkObstacleCollisions g)")
     (simp_all add: Game_animate_inactive Game_animate_hit Game_animate_miss Let_def
        Game_endGame_def Game_updateNewspapers_frame collide_fields)

lemma Game_animate_papers: "papers (Game_animate g dt) = papers g"
  by (cases "isActive g"; cases "fst (Game_checkObstacleCollisions g)")
     (simp_all add: Game_animate_inactive Game_animate_hit Game_animate_miss Let_def
        Game_endGame_def Game_updateNewspapers_frame collide_fields)

lemma Game_animate_world:
  "obstacles (Game_animate g dt) = obstacles g \<and>
   mailboxes (Game_animate g dt) = mailboxes g \<and>
   porches (Game_animate g dt) = porches g"
  by (cases "isActive g"; cases "fst (Game_checkObstacleCollisions g)")
     (simp_all add: Game_animate_inactive Game_animate_hit Game_animate_miss Let_def
        Game_endGame_def Game_updateNewspapers_frame collide_fields)

lemma Game_animate_player:
  "player (Game_animate g dt) =
     (if \<not> isActive g then player g
      else if fst (Game_checkObstacleCollisions g) then Player_makeInvincible (player g)
      else Player_update (player g) dt)"
  by (cases "isActive g"; cases "fst (Game_checkObstacleCollisions g)")
     (simp_all add: Game_animate_inactive Game_animate_hit Game_animate_miss Let_def
        Game_endGame_def Game_updateNewspapers_frame collide_fields)

lemma Game_animate_length:
  "length (newspapers (Game_animate g dt)) \<le> length (newspapers g)"
proof -
  have a: "length (newspapers (Game_updateNewspapers (collide (g\<lparr>gameTime := t\<rparr>))))
            \<le> length (newspapers g)" for t
    using Game_updateNewspapers_length [of "collide (g\<lparr>gameTime := t\<rparr>)"]
    by (simp add: collide_fields)
  have b: "length (newspapers (Game_updateNewspapers (g\<lparr>gameTime := t, player := q\<rparr>)))
            \<le> length (newspapers g)" for t q
    using Game_updateNewspapers_length [of "g\<lparr>gameTime := t, player := q\<rparr>"]
    by simp
  show ?thesis
    using a b
    by (cases "isActive g"; cases "fst (Game_checkObstacleCollisions g)")
       (simp_all add: Game_animate_inactive Game_animate_hit Game_animate_miss Let_def
          Game_endGame_def)
qed

lemma Game_animate_isActive:
  "isActive g \<Longrightarrow>
   isActive (Game_animate g dt) =
     (\<not> (fst (Game_checkObstacleCollisions g) \<and> lives g \<le> 1) \<and>
      \<not> (papers g \<le> 0 \<and> newspapers (Game_animate g dt) = [] \<and> 0 < lives (Game_animate g dt)))"
  by (cases "fst (Game_checkObstacleCollisions g)")
     (auto simp add: Game_animate_hit Game_animate_miss Let_def
        Game_endGame_def Game_updateNewspapers_frame collide_fields)

section \<open>Events and invariants of a session\<close>

lemma Game_createNewspaper_fields:
  "papers (Game_createNewspaper g a b c vx vz) = (if papers g \<le> 0 then papers g else papers g - 1)"
  "newspapers (Game_createNewspaper g a b c vx vz) =
     (if papers g \<le> 0 then newspapers g else newspapers g @ [createNewspaper a b c vx vz])"
  "isActive (Game_createNewspaper g a b c vx vz) = isActive g"
  "lives (Game_createNewspaper g a b c vx vz) = lives g"
  "player (Game_createNewspaper g a b c vx vz) = player g"
  by (simp_all add: Game_createNewspaper_def Let_def)

lemma Controls_handleKeyDown_fields:
  "isActive (Controls_handleKeyDown g k tx tz) = isActive g"
  "lives (Controls_handleKeyDown g k tx tz) = lives g"
  "papers (Controls_handleKeyDown g k tx tz) =
     (if isActive g \<and> k = Space \<and> 0 < papers g then papers g - 1 else papers g)"
  "length (newspapers (Controls_handleKeyDown g k tx tz)) =
     (if isActive g \<and> k = Space \<and> 0 < papers g then Suc (length (newspapers g))
      else length (newspapers g))"
  "Body.position (player (Controls_handleKeyDown g k tx tz)) = Body.position (player g)"
  by (auto simp add: Controls_handleKeyDown_def Controls_handleSpecialKeyActions_def Let_def
      Game_throwNewspaper_def Game_createNewspaper_fields Player_startJump_def)

lemma Controls_update_fields:
  "isActive (Controls_update g) = isActive g"
  "lives (Controls_update g) = lives g"
  "papers (Controls_update g) = papers g"
  "newspapers (Controls_update g) = newspapers g"
  "Body.position (player (Controls_update g)) = Body.position (player g)"
  by (simp_all add: Controls_update_def Let_def)

lemma Controls_handleKeyUp_fields:
  "isActive (Controls_handleKeyUp g k) = isActive g"
  "lives (Controls_handleKeyUp g k) = lives g"
  "papers (Controls_handleKeyUp g k) = papers g"
  "newspapers (Controls_handleKeyUp g k) = newspapers g"
  "player (Controls_handleKeyUp g k) = player g"
  by (simp_all add: Controls_handleKeyUp_def)

lemma Game_restartGame_fields:
  "isActive (Game_restartGame g)"
  "lives (Game_restartGame g) = 3"
  "papers (Game_restartGame g) = 100"
  "newspapers (Game_restartGame g) = []"
  "player (Game_restartGame g) = Player_reset (player g)"
  by (simp_all add: Game_restartGame_def)

lemma started_fields:
  "isActive (Game_startGame ((Game_init obs mbs pos ws)\<lparr>keys := ks\<rparr>))"
  "lives (Game_startGame ((Game_init obs mbs pos ws)\<lparr>keys := ks\<rparr>)) = 3"
  "papers (Game_startGame ((Game_init obs mbs pos ws)\<lparr>keys := ks\<rparr>)) = 100"
  "newspapers (Game_startGame ((Game_init obs mbs pos ws)\<lparr>keys := ks\<rparr>)) = []"
  "player (Game_startGame ((Game_init obs mbs pos ws)\<lparr>keys := ks\<rparr>)) = Player_create Player_constructor"
  by (simp_all add: Game_startGame_def Game_init_def)

lemma reachable_lives: "reachable g \<Longrightarrow> isActive g \<Longrightarrow> 0 < lives g"
proof (induction rule: reachable.induct)
  case (start ks obs mbs pos ws)
  show ?case by (simp add: started_fields)
next
  case (step g ev)
  show ?case
  proof (cases ev)
    case (Frame dt)
    show ?thesis
    proof (cases "isActive g")
      case True
      with step Frame show ?thesis
        by (auto simp add: Game_animate_isActive Game_animate_lives)
    next
      case False
      with step Frame show ?thesis by (simp add: Game_animate_inactive)
    qed
  next
    case ControlsTick
    with step show ?thesis by (simp add: Controls_update_fields)
  next
    case (KeyDown k tx tz)
    with step show ?thesis by (simp add: Controls_handleKeyDown_fields)
  next
    case (KeyUp k)
    with step show ?thesis by (simp add: Controls_handleKeyUp_fields)
  next
    case RestartClick
    then show ?thesis by (simp add: Game_restartGame_fields)
  qed
qed

lemma reachable_papers: "reachable g \<Longrightarrow> 0 \<le> papers g"
proof (induction rule: reachable.induct)
  case (start ks obs mbs pos ws)
  show ?case by (simp add: started_fields)
next
  case (step g ev)
  then show ?case
    by (cases ev)
       (simp_all add: Game_animate_papers Controls_update_fields Controls_handleKeyDown_fields
          Controls_handleKeyUp_fields Game_restartGame_fields)
qed

lemma reachable_run: "reachable g \<Longrightarrow> reachable (run evs g)"
  by (induction evs arbitrary: g) (simp_all add: reachable.step)

lemma throws:
  "isActive g \<Longrightarrow> int n \<le> papers g \<Longrightarrow>
   papers (run (replicate n (KeyDown Space tx tz)) g) = papers g - int n \<and>
   length (newspapers (run (replicate n (KeyDown Space tx tz)) g)) = length (newspapers g) + n \<and>
   isActive (run (replicate n (KeyDown Space tx tz)) g)"
proof (induction n arbitrary: g)
  case 0
  then show ?case by simp
next
  case (Suc n)
  let ?g' = "Controls_handleKeyDown g Space tx tz"
  have a: "isActive ?g'" and p: "papers ?g' = papers g - 1"
    and l: "length (newspapers ?g') = Suc (length (newspapers g))"
    using Suc.prems by (simp_all add: Controls_handleKeyDown_fields)
  have "int n \<le> papers ?g'" using Suc.prems p by simp
  from Suc.IH [OF a this] show ?case by (simp add: p l)
qed

lemma example_game_started:
  "example_game = Game_startGame ((Game_init [] [example_mailbox] [example_porch] [])\<lparr>keys := (\<lambda>k. False)\<rparr>)"
  by (simp add: example_game_def Game_init_def)

lemma crash_game_started:
  "crash_game = Game_startGame ((Game_init [example_hill, example_car] [example_mailbox] [example_porch] [])\<lparr>keys := (\<lambda>k. False)\<rparr>)"
  by (simp add: crash_game_def Game_init_def)

lemma reachable_example_game: "reachable example_game"
  unfolding example_game_started by (rule reachable.start)

lemma reachable_crash_game: "reachable crash_game"
  unfolding crash_game_started by (rule reachable.start)

lemma example_game_fields:
  "isActive example_game" "papers example_game = 100" "newspapers example_game = []"
  "lives example_game = 3" "score example_game = 0"
  "walls example_game = []" "mailboxes example_game = [example_mailbox]"
  "porches example_game = [example_porch]"
  by (simp_all add: example_game_def Game_startGame_def Game_init_def)

lemma fifty_one_thrown_fields:
  "reachable fifty_one_thrown" "papers fifty_one_thrown = 49"
  "length (newspapers fifty_one_thrown) = 51"
  using throws [of example_game 51 1 0]
  by (simp_all add: fifty_one_thrown_def reachable_run reachable_example_game example_game_fields)

lemma all_thrown_fields:
  "reachable all_thrown" "papers all_thrown = 0"
  "length (newspapers all_thrown) = 100"
  using throws [of example_game 100 1 0]
  by (simp_all add: all_thrown_def reachable_run reachable_example_game example_game_fields)

lemma obstacle_hit_crash: "fst (Game_checkObstacleCollisions crash_game)"
  by (simp add: Game_checkObstacleCollisions_fst crash_game_fields checkCollision_def Let_def
      example_car_def example_hill_def vec_def)

lemma last_life_fields:
  "lives last_life = 1 \<and> isActive last_life \<and> fst (Game_checkObstacleCollisions last_life) \<and>
   papers last_life = 100"
  unfolding last_life_def by code_simp

lemma reachable_last_life: "reachable last_life"
  unfolding last_life_def by (rule reachable_run [OF reachable_crash_game])

section \<open>The player's lane\<close>

lemma Player_move_X:
  "X (Body.position (Player_move p)) =
     max (- 15) (min 15 (X (Body.position p) + X (Player.velocity p)))"
  by (simp add: Player_move_def Let_def)

lemma Player_jump_X: "X (Body.position (Player_jump p)) = X (Body.position p)"
  by (simp add: Player_jump_def Let_def)

lemma Player_invincibility_position:
  "Body.position (Player_invincibility p dt) = Body.position p"
  by (simp add: Player_invincibility_def Let_def)

lemma Player_update_X:
  "X (Body.position (Player_update p dt)) =
     max (- 15) (min 15 (X (Body.position p) + X (Player.velocity p)))"
  by (simp add: Player_update_def Player_invincibility_position Player_jump_X Player_move_X)

lemma inLane_simple:
  "inLane (Player_update p dt)"
  "inLane (Player_create p)"
  "inLane (Player_reset p)"
  "inLane (Player_create Player_constructor)"
  "inLane (Player_startJump p) = inLane p"
  "inLane (Player_makeInvincible p) = inLane p"
  by (simp_all add: inLane_def Player_update_X Player_create_def Player_reset_def vec_def
      Player_startJump_def Player_makeInvincible_def)

lemma inLane_position: "Body.position p = Body.position q \<Longrightarrow> inLane p = inLane q"
  by (simp add: inLane_def)

lemma inLane_handle: "inLane (player g) \<Longrightarrow> inLane (player (handle ev g))"
proof (cases ev)
  case (Frame dt)
  assume "inLane (player g)"
  with Frame show ?thesis by (simp add: Game_animate_player inLane_simple)
next
  case ControlsTick
  assume "inLane (player g)"
  with ControlsTick show ?thesis
    using inLane_position [OF Controls_update_fields(5) [of g]] by simp
next
  case (KeyDown k tx tz)
  assume "inLane (player g)"
  with KeyDown show ?thesis
    using inLane_position [OF Controls_handleKeyDown_fields(5) [of g k tx tz]] by simp
next
  case (KeyUp k)
  assume "inLane (player g)"
  with KeyUp show ?thesis by (simp add: Controls_handleKeyUp_fields)
next
  case RestartClick
  then show ?thesis by (simp add: Game_restartGame_fields inLane_simple)
qed

lemma reachable_inLane: "reachable g \<Longrightarrow> inLane (player g)"
proof (induction rule: reachable.induct)
  case (start ks obs mbs pos ws)
  show ?case by (simp add: started_fields inLane_simple)
next
  case (step g ev)
  then show ?case by (simp add: inLane_handle)
qed

section \<open>Awards of one newspaper\<close>

lemma airborneUpdate_score:
  "snd (airborneUpdate ws mbs pos (n, s)) =
     s + (if thrown n \<and> \<not> delivered n then
            (if \<exists>m \<in> set mbs. inMailboxZone (Newspaper.position (moveNewspaper ws n)) m then 20
             else if \<exists>q \<in> set pos. inPorchZone (Newspaper.position (moveNewspaper ws n)) q then 10
             else 0)
          else 0)"
  by (simp add: airborneUpdate_def flyNewspaper_score)

lemma airborneUpdate_scored_delivered:
  "snd (airborneUpdate ws mbs pos (n, s)) \<noteq> s \<Longrightarrow>
   \<not> delivered n \<and> delivered (fst (airborneUpdate ws mbs pos (n, s)))"
  by (auto simp add: airborneUpdate_def flyNewspaper_score flyNewspaper_delivered split: if_splits)

lemma awards_delivered: "delivered n \<Longrightarrow> awards ws mbs pos k n = replicate k 0"
  by (induction k) (simp_all add: airborneUpdate_delivered_id)

lemma awards_once:
  "length (filter (\<lambda>a. a \<noteq> 0) (awards ws mbs pos k n)) \<le> 1 \<and>
   sum_list (awards ws mbs pos k n) \<in> {0, 10, 20}"
proof (induction k arbitrary: n)
  case 0
  show ?case by simp
next
  case (Suc k)
  let ?n' = "fst (airborneUpdate ws mbs pos (n, 0))"
  let ?a = "snd (airborneUpdate ws mbs pos (n, 0))"
  show ?case
  proof (cases "?a = 0")
    case True
    with Suc.IH [of ?n'] show ?thesis by simp
  next
    case False
    then have "delivered ?n'" by (simp add: airborneUpdate_scored_delivered)
    then have rest: "awards ws mbs pos k ?n' = replicate k 0" by (rule awards_delivered)
    have "?a \<in> {0, 10, 20}" by (simp add: airborneUpdate_score)
    with False rest show ?thesis by (auto simp add: sum_list_replicate)
  qed
qed

lemma updateNewspaperAt_delivered:
  "i < length (newspapers g) \<Longrightarrow> delivered (newspapers g ! i) \<Longrightarrow> updateNewspaperAt i g = g"
  by (simp add: updateNewspaperAt_def airborneUpdate_delivered_id)

lemma airborneUpdate_score_shift:
  "snd (airborneUpdate ws mbs pos (n, s)) = s + snd (airborneUpdate ws mbs pos (n, 0))"
  by (simp add: airborneUpdate_score)

lemma sweep_score:
  "snd (sweep ws mbs pos t ns s) =
     s + sum_list (map (\<lambda>n. snd (airborneUpdate ws mbs pos (n, 0))) ns)"
proof (induction ns)
  case Nil
  show ?case by simp
next
  case (Cons n ns)
  have "snd (sweep ws mbs pos t (n # ns) s) =
          snd (airborneUpdate ws mbs pos (n, snd (sweep ws mbs pos t ns s)))"
    by (simp add: Let_def split_def)
  also have "\<dots> = snd (sweep ws mbs pos t ns s) + snd (airborneUpdate ws mbs pos (n, 0))"
    by (rule airborneUpdate_score_shift)
  finally show ?case by (simp add: Cons.IH)
qed

lemma Game_updateNewspapers_score:
  "score (Game_updateNewspapers g) =
     score g + sum_list (map (\<lambda>n. snd (airborneUpdate (walls g) (mailboxes g) (porches g) (n, 0)))
                          (newspapers g))"
  by (simp add: Game_updateNewspapers_sweep sweep_score)

section \<open>Newspapers across frames\<close>

text \<open>What the newspaper update stores in the list, and what any number of updates add to
  the score.\<close>

lemma airborneUpdate_fst_shift:
  "fst (airborneUpdate ws mbs pos (n, s)) = fst (airborneUpdate ws mbs pos (n, 0))"
proof (cases "thrown n \<and> \<not> delivered n")
  case False
  then show ?thesis by (auto simp add: airborneUpdate_def)
next
  case air: True
  show ?thesis
  proof (cases "\<exists>m \<in> set mbs. inMailboxZone (Newspaper.position (moveNewspaper ws n)) m")
    case True
    with air show ?thesis by (simp add: airborneUpdate_def flyNewspaper_mailbox)
  next
    case nomb: False
    show ?thesis
    proof (cases "\<exists>q \<in> set pos. inPorchZone (Newspaper.position (moveNewspaper ws n)) q")
      case True
      with air nomb show ?thesis by (simp add: airborneUpdate_def flyNewspaper_porch)
    next
      case False
      with air nomb show ?thesis by (simp add: airborneUpdate_def flyNewspaper_miss)
    qed
  qed
qed

lemma sweep_newspapers:
  "fst (sweep ws mbs pos t ns s) =
     filter (\<lambda>n'. \<not> (\<not> thrown n' \<and> \<not> delivered n' \<and> 30 < t))
       (map (\<lambda>n. fst (airborneUpdate ws mbs pos (n, 0))) ns)"
proof (induction ns)
  case Nil
  show ?case by simp
next
  case (Cons n ns)
  have shift: "fst (airborneUpdate ws mbs pos (n, snd (sweep ws mbs pos t ns s))) =
      fst (airborneUpdate ws mbs pos (n, 0))"
    by (rule airborneUpdate_fst_shift)
  show ?case
    using Cons.IH by (simp add: Let_def split_def shift)
qed

lemma Game_updateNewspapers_newspapers:
  "newspapers (Game_updateNewspapers g) =
     filter (\<lambda>n'. \<not> (\<not> thrown n' \<and> \<not> delivered n' \<and> 30 < gameTime g))
       (map (\<lambda>n. fst (airborneUpdate (walls g) (mailboxes g) (porches g) (n, 0))) (newspapers g))"
  by (simp add: Game_updateNewspapers_sweep sweep_newspapers)

lemma awards_grounded: "\<not> thrown n \<Longrightarrow> awards ws mbs pos k n = replicate k 0"
  by (induction k) (simp_all add: airborneUpdate_grounded_id)

lemma sum_list_filter_zero:
  "(\<And>x. x \<in> set xs \<Longrightarrow> \<not> p x \<Longrightarrow> f x = (0::int)) \<Longrightarrow>
   sum_list (map f (filter p xs)) = sum_list (map f xs)"
  by (induction xs) simp_all

lemma sum_list_bounds:
  "(\<And>x. x \<in> set xs \<Longrightarrow> 0 \<le> f x \<and> f x \<le> (20::int)) \<Longrightarrow>
   0 \<le> sum_list (map f xs) \<and> sum_list (map f xs) \<le> 20 * int (length xs)"
proof (induction xs)
  case Nil
  show ?case by simp
next
  case (Cons x xs)
  then have "0 \<le> f x \<and> f x \<le> 20" and "0 \<le> sum_list (map f xs) \<and> sum_list (map f xs) \<le> 20 * int (length xs)"
    by simp_all
  then show ?case by simp
qed

lemma updates_world:
  "walls (updates ts g) = walls g \<and> mailboxes (updates ts g) = mailboxes g \<and>
   porches (updates ts g) = porches g"
  by (induction ts arbitrary: g) (simp_all add: Game_updateNewspapers_frame)

lemma updates_score:
  "score (updates ts g) =
     score g + sum_list (map (\<lambda>n. sum_list (awards (walls g) (mailboxes g) (porches g) (length ts) n))
                          (newspapers g))"
proof (induction ts arbitrary: g)
  case Nil
  show ?case by simp
next
  case (Cons t ts)
  let ?g1 = "g\<lparr>gameTime := t\<rparr>"
  let ?g' = "Game_updateNewspapers ?g1"
  let ?upd = "\<lambda>n. fst (airborneUpdate (walls g) (mailboxes g) (porches g) (n, 0))"
  let ?award = "\<lambda>n. snd (airborneUpdate (walls g) (mailboxes g) (porches g) (n, 0))"
  let ?rest = "\<lambda>n'. sum_list (awards (walls g) (mailboxes g) (porches g) (length ts) n')"
  let ?keep = "\<lambda>n'. \<not> (\<not> thrown n' \<and> \<not> delivered n' \<and> 30 < t)"
  have world: "walls ?g' = walls g" "mailboxes ?g' = mailboxes g" "porches ?g' = porches g"
    by (simp_all add: Game_updateNewspapers_frame)
  have news: "newspapers ?g' = filter ?keep (map ?upd (newspapers g))"
    by (simp add: Game_updateNewspapers_newspapers)
  have sc: "score ?g' = score g + sum_list (map ?award (newspapers g))"
    by (simp add: Game_updateNewspapers_score)
  have dropped: "sum_list (map ?rest (filter ?keep (map ?upd (newspapers g)))) =
      sum_list (map ?rest (map ?upd (newspapers g)))"
    by (rule sum_list_filter_zero) (simp add: awards_grounded sum_list_replicate)
  have "score (updates (t # ts) g) = score ?g' + sum_list (map ?rest (newspapers ?g'))"
    using Cons.IH [of ?g'] by (simp add: world)
  also have "\<dots> = (score g + sum_list (map ?award (newspapers g))) +
      sum_list (map ?rest (map ?upd (newspapers g)))"
    by (simp only: sc news dropped)
  also have "\<dots> = score g + (sum_list (map ?award (newspapers g)) +
      sum_list (map (\<lambda>n. ?rest (?upd n)) (newspapers g)))"
    by (simp add: comp_def)
  also have "\<dots> = score g + sum_list (map (\<lambda>n. ?award n + ?rest (?upd n)) (newspapers g))"
    by (simp add: sum_list_addf)
  finally show ?case by simp
qed

lemma awards_total_bounds:
  "0 \<le> sum_list (awards ws mbs pos k n) \<and> sum_list (awards ws mbs pos k n) \<le> 20"
  using awards_once [of ws mbs pos k n] by auto

lemma updates_score_bounds:
  "score g \<le> score (updates ts g) \<and>
   score (updates ts g) \<le> score g + 20 * int (length (newspapers g))"
  using sum_list_bounds [of "newspapers g"
      "\<lambda>n. sum_list (awards (walls g) (mailboxes g) (porches g) (length ts) n)"]
  by (simp add: updates_score awards_total_bounds)

lemma awarded_is_stored:
  assumes "n \<in> set (newspapers g)"
    and "snd (airborneUpdate (walls g) (mailboxes g) (porches g) (n, 0)) \<noteq> 0"
  shows "fst (airborneUpdate (walls g) (mailboxes g) (porches g) (n, 0)) \<in> set (newspapers (Game_updateNewspapers g)) \<and>
         delivered (fst (airborneUpdate (walls g) (mailboxes g) (porches g) (n, 0)))"
proof -
  have "delivered (fst (airborneUpdate (walls g) (mailboxes g) (porches g) (n, 0)))"
    using airborneUpdate_scored_delivered [OF assms(2)] by simp
  then show ?thesis
    using assms(1) by (simp add: Game_updateNewspapers_newspapers)
qed

lemma Game_updateNewspapers_only_reads:
  "newspapers (Game_updateNewspapers (g\<lparr>score := sc, lives := l, isActive := a, player := p\<rparr>)) =
     newspapers (Game_updateNewspapers g)"
  by (simp add: Game_updateNewspapers_newspapers)

lemma Game_animate_newspapers:
  assumes "isActive g"
  shows "newspapers (Game_animate g dt) =
           newspapers (Game_updateNewspapers (g\<lparr>gameTime := gameTime g + dt\<rparr>)) \<and>
         score (Game_animate g dt) =
           score (Game_updateNewspapers (g\<lparr>gameTime := gameTime g + dt\<rparr>)) -
             (if fst (Game_checkObstacleCollisions g) then 5 else 0)"
proof (cases "fst (Game_checkObstacleCollisions g)")
  case True
  show ?thesis
    unfolding Game_animate_hit [OF assms True]
    by (simp add: Let_def Game_endGame_def Game_updateNewspapers_newspapers
        Game_updateNewspapers_score collide_fields True)
next
  case False
  show ?thesis
    unfolding Game_animate_miss [OF assms False]
    by (simp add: Let_def Game_endGame_def Game_updateNewspapers_newspapers
        Game_updateNewspapers_score False)
qed

lemma delivered_stays_one:
  "m \<in> set (newspapers g) \<Longrightarrow> delivered m \<Longrightarrow> m \<in> set (newspapers (Game_updateNewspapers g))"
proof -
  assume in_list: "m \<in> set (newspapers g)" and del: "delivered m"
  have "fst (airborneUpdate (walls g) (mailboxes g) (porches g) (m, 0)) = m"
    using del by (simp add: airborneUpdate_delivered_id)
  then have "m \<in> (\<lambda>n. fst (airborneUpdate (walls g) (mailboxes g) (porches g) (n, 0))) ` set (newspapers g)"
    using in_list by force
  then show ?thesis
    using del by (simp add: Game_updateNewspapers_newspapers)
qed

lemma delivered_stays:
  "m \<in> set (newspapers g) \<Longrightarrow> delivered m \<Longrightarrow> m \<in> set (newspapers (updates ts g))"
proof (induction ts arbitrary: g)
  case Nil
  then show ?case by simp
next
  case (Cons t ts)
  have "m \<in> set (newspapers (Game_updateNewspapers (g\<lparr>gameTime := t\<rparr>)))"
    using Cons.prems by (intro delivered_stays_one) simp_all
  from Cons.IH [OF this Cons.prems(2)] show ?case by simp
qed

section \<open>A late throw\<close>

text \<open>The thrown newspaper stays in the air for 33 frames and comes down in the 34th.\<close>

lemma player_rest: "Player_update (Player_create Player_constructor) dt = Player_create Player_constructor"
  by (simp add: Player_update_def Player_move_def Player_jump_def Player_invincibility_def
      Player_create_def Player_constructor_def vec_def Let_def)

lemma example_game_record:
  "example_game =
     \<lparr>isActive = True, score = 0, papers = 100, lives = 3,
      obstacles = [], mailboxes = [example_mailbox], porches = [example_porch], newspapers = [],
      gameTime = 0, player = Player_create Player_constructor,
      keys = (\<lambda>k. False), walls = []\<rparr>"
  by (simp add: example_game_def Game_startGame_def Game_init_def)

lemma no_obstacles_no_hit: "obstacles g = [] \<Longrightarrow> \<not> fst (Game_checkObstacleCollisions g)"
  by (simp add: Game_checkObstacleCollisions_fst)

lemma late_throw_0: "late_throw 0 = in_flight 0"
proof -
  have a: "Game_animate example_game 30.5 = example_game\<lparr>gameTime := 30.5\<rparr>"
    by (simp add: Game_animate_miss no_obstacles_no_hit Let_def Game_updateNewspapers_def
        example_game_record player_rest)
  have "Controls_handleKeyDown (example_game\<lparr>gameTime := 30.5\<rparr>) Space 1 0 = in_flight 0"
    by (simp add: in_flight_def flight_def example_game_record
        Controls_handleKeyDown_def Controls_handleSpecialKeyActions_def Game_throwNewspaper_def
        Game_createNewspaper_def createNewspaper_def Player_create_def Player_constructor_def vec_def
        fun_eq_iff Let_def)
  with a show ?thesis by (simp add: late_throw_def)
qed

lemma flight_height: "k \<le> 33 \<Longrightarrow> 2 + 0.2 * real k - 0.0075 * real k * (real k + 1) > 0.05"
proof -
  assume "k \<le> 33"
  then have le: "real k \<le> 33" by simp
  then have sq: "real k * real k \<le> 33 * real k"
    by (simp add: mult_right_mono)
  have e: "0.0075 * real k * (real k + 1) = 0.0075 * (real k * real k) + 0.0075 * real k"
    by (simp add: algebra_simps)
  have "0.0075 * (real k * real k) \<le> 0.0075 * (33 * real k)"
    using sq by simp
  then have "0.0075 * real k * (real k + 1) \<le> 0.255 * real k"
    unfolding e by simp
  then show ?thesis using le by simp
qed

lemma moveNewspaper_flight: "moveNewspaper [] (flight k) = flight (Suc k)"
  by (simp add: moveNewspaper_def flight_def Vector3_add_def vec_def Let_def field_simps)

lemma flight_zones:
  "\<not> inMailboxZone (Newspaper.position (flight k)) example_mailbox"
  "\<not> inPorchZone (Newspaper.position (flight k)) example_porch"
  by (simp_all add: inMailboxZone_def inPorchZone_def flight_def vec_def example_mailbox_def
      example_porch_def)

lemma airborneUpdate_flight:
  "airborneUpdate [] [example_mailbox] [example_porch] (flight k, s) =
     ((if Y (Newspaper.position (flight (Suc k))) \<le> 0.05
       then (flight (Suc k))\<lparr>Newspaper.position := (Newspaper.position (flight (Suc k)))\<lparr>Y := 0.05\<rparr>,
                thrown := False, Newspaper.velocity := vec 0 0 0\<rparr>
       else flight (Suc k)), s)"
proof -
  have air: "thrown (flight k)" "\<not> delivered (flight k)" by (simp_all add: flight_def)
  have "flyNewspaper [] [example_mailbox] [example_porch] (flight k, s) =
     ((if Y (Newspaper.position (moveNewspaper [] (flight k))) \<le> 0.05
       then (moveNewspaper [] (flight k))\<lparr>Newspaper.position := (Newspaper.position (moveNewspaper [] (flight k)))\<lparr>Y := 0.05\<rparr>,
                thrown := False, Newspaper.velocity := vec 0 0 0\<rparr>
       else moveNewspaper [] (flight k)), s)"
    by (rule flyNewspaper_miss) (simp_all add: moveNewspaper_flight flight_zones)
  then show ?thesis using air by (simp add: airborneUpdate_def moveNewspaper_flight)
qed

lemma frame_in_flight:
  assumes "k < 33"
  shows "Game_animate (in_flight k) 0.016 = in_flight (Suc k)"
proof -
  have "\<not> Y (Newspaper.position (flight (Suc k))) \<le> 0.05"
    using flight_height [of "Suc k"] assms by (simp add: flight_def vec_def)
  then have one: "airborneUpdate [] [example_mailbox] [example_porch] (flight k, s) = (flight (Suc k), s)" for s
    by (simp only: airborneUpdate_flight if_False)
  have air: "thrown (flight (Suc k))" by (simp add: flight_def)
  have act: "isActive (in_flight k)" and noobs: "obstacles (in_flight k) = []"
    by (simp_all add: in_flight_def example_game_record)
  have "Game_animate (in_flight k) 0.016 =
          example_game\<lparr>gameTime := 30.5 + 0.016 * real k + 0.016, papers := 99,
                    keys := (\<lambda>k. k = Space), newspapers := [flight (Suc k)]\<rparr>"
    unfolding Game_animate_miss [OF act no_obstacles_no_hit [OF noobs]]
    by (simp add: Let_def Game_updateNewspapers_sweep in_flight_def example_game_record
        player_rest one air del: of_nat_Suc)
  moreover have "30.5 + 0.016 * real k + 0.016 = 30.5 + 0.016 * real (Suc k)"
    by (simp add: field_simps)
  ultimately show ?thesis by (simp only: in_flight_def)
qed

lemma frames_in_flight:
  "j + k \<le> 33 \<Longrightarrow> run (replicate k (Frame 0.016)) (in_flight j) = in_flight (j + k)"
proof (induction k arbitrary: j)
  case 0
  show ?case by simp
next
  case (Suc k)
  then have lt: "j < 33" and le: "Suc j + k \<le> 33" by simp_all
  have "run (replicate (Suc k) (Frame 0.016)) (in_flight j) =
          run (replicate k (Frame 0.016)) (Game_animate (in_flight j) 0.016)"
    by (simp only: replicate_Suc run.simps handle.simps)
  also have "\<dots> = run (replicate k (Frame 0.016)) (in_flight (Suc j))"
    by (simp only: frame_in_flight [OF lt])
  also have "\<dots> = in_flight (Suc j + k)"
    by (rule Suc.IH [OF le])
  finally show ?case by simp
qed

lemma late_throw_in_flight: "k \<le> 33 \<Longrightarrow> late_throw k = in_flight k"
proof -
  assume "k \<le> 33"
  have "late_throw k = run (replicate k (Frame 0.016)) (late_throw 0)"
    by (simp add: late_throw_def)
  also have "\<dots> = in_flight (0 + k)"
    unfolding late_throw_0 using \<open>k \<le> 33\<close> by (intro frames_in_flight) simp
  finally show ?thesis by simp
qed

lemma run_snoc: "run (evs @ [ev]) g = handle ev (run evs g)"
  by (induction evs arbitrary: g) simp_all

lemma late_throw_Suc: "late_throw (Suc k) = Game_animate (late_throw k) 0.016"
proof -
  have "replicate (Suc k) (Frame 0.016) = replicate k (Frame 0.016) @ [Frame 0.016]"
    by (simp add: replicate_append_same)
  then have "late_throw (Suc k) =
      run (([Frame 30.5, KeyDown Space 1 0] @ replicate k (Frame 0.016)) @ [Frame 0.016]) example_game"
    by (simp add: late_throw_def)
  then show ?thesis
    unfolding run_snoc by (simp add: late_throw_def)
qed

lemma landing_frame: "newspapers (Game_animate (in_flight 33) 0.016) = []"
proof -
  have s34: "Suc 33 = 34" by simp
  have low: "Y (Newspaper.position (flight 34)) \<le> 0.05"
    by (simp add: flight_def vec_def)
  have one: "airborneUpdate [] [example_mailbox] [example_porch] (flight 33, s) =
      ((flight 34)\<lparr>Newspaper.position := (Newspaper.position (flight 34))\<lparr>Y := 0.05\<rparr>,
                thrown := False, Newspaper.velocity := vec 0 0 0\<rparr>, s)" for s
    using airborneUpdate_flight [of 33 s] low unfolding s34 by simp
  have del: "\<not> delivered (flight 34)" by (simp add: flight_def)
  have act: "isActive (in_flight 33)" and noobs: "obstacles (in_flight 33) = []"
    by (simp_all add: in_flight_def example_game_record)
  show ?thesis
    unfolding Game_animate_miss [OF act no_obstacles_no_hit [OF noobs]]
    by (simp add: Let_def Game_updateNewspapers_sweep in_flight_def example_game_record
        player_rest one del Game_endGame_def)
qed

section \<open>A throw onto a porch\<close>

lemma street_game_record:
  "street_game =
     \<lparr>isActive = True, score = 0, papers = 100, lives = 3,
      obstacles = [], mailboxes = [example_mailbox, right_mailbox],
      porches = [example_porch, right_porch], newspapers = [],
      gameTime = 0, player = Player_create Player_constructor,
      keys = (\<lambda>k. False), walls = []\<rparr>"
  by (simp add: street_game_def Game_startGame_def Game_init_def)

lemma street_game_started:
  "street_game = Game_startGame ((Game_init [] [example_mailbox, right_mailbox]
      [example_porch, right_porch] [])\<lparr>keys := (\<lambda>k. False)\<rparr>)"
  by (simp add: street_game_def Game_init_def)

lemma reachable_street_game: "reachable street_game"
  unfolding street_game_started by (rule reachable.start)

lemma porch_throw_0: "porch_throw 0 = street_flight 0"
  by (simp add: porch_throw_def street_flight_def flight_def street_game_record
      Controls_handleKeyDown_def Controls_handleSpecialKeyActions_def Game_throwNewspaper_def
      Game_createNewspaper_def createNewspaper_def Player_create_def Player_constructor_def vec_def
      fun_eq_iff Let_def)

lemma flight_above_porches:
  "k \<le> 31 \<Longrightarrow> 0.5 \<le> 2 + 0.2 * real k - 0.0075 * real k * (real k + 1)"
proof -
  assume "k \<le> 31"
  then have le: "real k \<le> 31" by simp
  then have sq: "real k * real k \<le> 31 * real k"
    by (simp add: mult_right_mono)
  have e: "0.0075 * real k * (real k + 1) = 0.0075 * (real k * real k) + 0.0075 * real k"
    by (simp add: algebra_simps)
  have "0.0075 * (real k * real k) \<le> 0.0075 * (31 * real k)"
    using sq by simp
  then have "0.0075 * real k * (real k + 1) \<le> 0.24 * real k"
    unfolding e by simp
  then show ?thesis using le by simp
qed

lemma street_zones:
  assumes "k \<le> 31"
  shows "\<not> (\<exists>m \<in> set [example_mailbox, right_mailbox]. inMailboxZone (Newspaper.position (flight k)) m)"
    and "\<not> (\<exists>q \<in> set [example_porch, right_porch]. inPorchZone (Newspaper.position (flight k)) q)"
    and "\<not> Y (Newspaper.position (flight k)) \<le> 0.05"
  using flight_above_porches [OF assms]
  by (simp_all add: inMailboxZone_def inPorchZone_def flight_def vec_def example_mailbox_def
      right_mailbox_def example_porch_def right_porch_def)

lemma airborneUpdate_street_flight:
  assumes "Suc k \<le> 31"
  shows "airborneUpdate [] [example_mailbox, right_mailbox] [example_porch, right_porch] (flight k, s) =
           (flight (Suc k), s)"
proof -
  have air: "thrown (flight k)" "\<not> delivered (flight k)" by (simp_all add: flight_def)
  have "flyNewspaper [] [example_mailbox, right_mailbox] [example_porch, right_porch] (flight k, s) =
     ((if Y (Newspaper.position (moveNewspaper [] (flight k))) \<le> 0.05
       then (moveNewspaper [] (flight k))\<lparr>Newspaper.position := (Newspaper.position (moveNewspaper [] (flight k)))\<lparr>Y := 0.05\<rparr>,
                thrown := False, Newspaper.velocity := vec 0 0 0\<rparr>
       else moveNewspaper [] (flight k)), s)"
    unfolding moveNewspaper_flight
    by (rule flyNewspaper_miss [of "[example_mailbox, right_mailbox]" "[]" "flight k", unfolded moveNewspaper_flight])
       (rule street_zones [OF assms])+
  then have "flyNewspaper [] [example_mailbox, right_mailbox] [example_porch, right_porch] (flight k, s) =
      (flight (Suc k), s)"
    unfolding moveNewspaper_flight using street_zones(3) [OF assms] by (simp only: if_False)
  then show ?thesis using air by (simp add: airborneUpdate_def)
qed

lemma flight_32_zones:
  "\<not> (\<exists>m \<in> set [example_mailbox, right_mailbox]. inMailboxZone (Newspaper.position (flight 32)) m)"
  "\<exists>q \<in> set [example_porch, right_porch]. inPorchZone (Newspaper.position (flight 32)) q"
  by (simp_all add: inMailboxZone_def inPorchZone_def flight_def vec_def example_mailbox_def
      right_mailbox_def example_porch_def right_porch_def)

lemma airborneUpdate_porch_delivery:
  "airborneUpdate [] [example_mailbox, right_mailbox] [example_porch, right_porch] (flight 31, s) =
     (porch_paper, s + 10)"
proof -
  have s32: "Suc 31 = 32" by simp
  have air: "thrown (flight 31)" "\<not> delivered (flight 31)" by (simp_all add: flight_def)
  have mv: "moveNewspaper [] (flight 31) = flight 32"
    using moveNewspaper_flight [of 31] unfolding s32 .
  have "flyNewspaper [] [example_mailbox, right_mailbox] [example_porch, right_porch] (flight 31, s) =
     ((moveNewspaper [] (flight 31))\<lparr>delivered := True, thrown := False, Newspaper.velocity := vec 0 0 0,
        Newspaper.position := (Newspaper.position (moveNewspaper [] (flight 31)))\<lparr>Y := 0.2\<rparr>\<rparr>, s + 10)"
    by (rule flyNewspaper_porch) (simp_all only: mv flight_32_zones not_False_eq_True)
  also have "(moveNewspaper [] (flight 31))\<lparr>delivered := True, thrown := False, Newspaper.velocity := vec 0 0 0,
        Newspaper.position := (Newspaper.position (moveNewspaper [] (flight 31)))\<lparr>Y := 0.2\<rparr>\<rparr> = porch_paper"
    unfolding mv by (simp add: flight_def porch_paper_def vec_def)
  finally show ?thesis using air by (simp add: airborneUpdate_def)
qed

lemma frame_street_flight:
  assumes "Suc k \<le> 31"
  shows "Game_animate (street_flight k) 0.016 = street_flight (Suc k)"
proof -
  have air: "thrown (flight (Suc k))" by (simp add: flight_def)
  have act: "isActive (street_flight k)" and noobs: "obstacles (street_flight k) = []"
    by (simp_all add: street_flight_def street_game_record)
  have "Game_animate (street_flight k) 0.016 =
          street_game\<lparr>gameTime := 0.016 * real k + 0.016, papers := 99,
                    keys := (\<lambda>k. k = Space), newspapers := [flight (Suc k)]\<rparr>"
    unfolding Game_animate_miss [OF act no_obstacles_no_hit [OF noobs]]
    by (simp add: Let_def Game_updateNewspapers_sweep street_flight_def street_game_record
        player_rest airborneUpdate_street_flight [OF assms] air del: of_nat_Suc)
  moreover have "0.016 * real k + 0.016 = 0.016 * real (Suc k)"
    by (simp add: field_simps)
  ultimately show ?thesis by (simp only: street_flight_def)
qed

lemma frames_street_flight:
  "j + k \<le> 31 \<Longrightarrow> run (replicate k (Frame 0.016)) (street_flight j) = street_flight (j + k)"
proof (induction k arbitrary: j)
  case 0
  show ?case by simp
next
  case (Suc k)
  then have lt: "Suc j \<le> 31" and le: "Suc j + k \<le> 31" by simp_all
  have "run (replicate (Suc k) (Frame 0.016)) (street_flight j) =
          run (replicate k (Frame 0.016)) (Game_animate (street_flight j) 0.016)"
    by (simp only: replicate_Suc run.simps handle.simps)
  also have "\<dots> = run (replicate k (Frame 0.016)) (street_flight (Suc j))"
    by (simp only: frame_street_flight [OF lt])
  also have "\<dots> = street_flight (Suc j + k)"
    by (rule Suc.IH [OF le])
  finally show ?case by simp
qed

lemma porch_throw_street_flight: "k \<le> 31 \<Longrightarrow> porch_throw k = street_flight k"
proof -
  assume "k \<le> 31"
  have "porch_throw k = run (replicate k (Frame 0.016)) (porch_throw 0)"
    by (simp add: porch_throw_def)
  also have "\<dots> = street_flight (0 + k)"
    unfolding porch_throw_0 using \<open>k \<le> 31\<close> by (intro frames_street_flight) simp
  finally show ?thesis by simp
qed

lemma porch_throw_Suc: "porch_throw (Suc k) = Game_animate (porch_throw k) 0.016"
proof -
  have "replicate (Suc k) (Frame 0.016) = replicate k (Frame 0.016) @ [Frame 0.016]"
    by (simp add: replicate_append_same)
  then have "porch_throw (Suc k) =
      run ((KeyDown Space 1 0 # replicate k (Frame 0.016)) @ [Frame 0.016]) street_game"
    by (simp add: porch_throw_def)
  then show ?thesis
    unfolding run_snoc by (simp add: porch_throw_def)
qed

lemma frame_porch_delivery: "Game_animate (street_flight 31) 0.016 = street_landed 32"
proof -
  have act: "isActive (street_flight 31)" and noobs: "obstacles (street_flight 31) = []"
    by (simp_all add: street_flight_def street_game_record)
  have del: "delivered porch_paper" by (simp add: porch_paper_def)
  show ?thesis
    unfolding Game_animate_miss [OF act no_obstacles_no_hit [OF noobs]]
    by (simp add: Let_def Game_updateNewspapers_sweep street_flight_def street_landed_def
        street_game_record player_rest airborneUpdate_porch_delivery del)
qed

lemma frame_street_landed: "Game_animate (street_landed k) 0.016 = street_landed (Suc k)"
proof -
  have act: "isActive (street_landed k)" and noobs: "obstacles (street_landed k) = []"
    by (simp_all add: street_landed_def street_game_record)
  have del: "delivered porch_paper" by (simp add: porch_paper_def)
  have "Game_animate (street_landed k) 0.016 =
          street_game\<lparr>gameTime := 0.016 * real k + 0.016, papers := 99,
                    keys := (\<lambda>k. k = Space), newspapers := [porch_paper], score := 10\<rparr>"
    unfolding Game_animate_miss [OF act no_obstacles_no_hit [OF noobs]]
    by (simp add: Let_def Game_updateNewspapers_sweep street_landed_def street_game_record
        player_rest airborneUpdate_delivered_id del del: of_nat_Suc)
  moreover have "0.016 * real k + 0.016 = 0.016 * real (Suc k)"
    by (simp add: field_simps)
  ultimately show ?thesis by (simp only: street_landed_def)
qed

lemma porch_throw_landed: "porch_throw (32 + j) = street_landed (32 + j)"
proof (induction j)
  case 0
  have s32: "Suc 31 = 32" by simp
  have "porch_throw 32 = Game_animate (porch_throw 31) 0.016"
    using porch_throw_Suc [of 31] unfolding s32 .
  also have "\<dots> = street_landed 32"
    by (simp only: porch_throw_street_flight [of 31, simplified] frame_porch_delivery)
  finally show ?case by simp
next
  case (Suc j)
  have "porch_throw (Suc (32 + j)) = Game_animate (porch_throw (32 + j)) 0.016"
    by (rule porch_throw_Suc)
  also have "\<dots> = street_landed (Suc (32 + j))"
    by (simp only: Suc.IH frame_street_landed)
  finally show ?case by simp
qed

lemma street_flight_fields:
  "walls (street_flight k) = []"
  "mailboxes (street_flight k) = [example_mailbox, right_mailbox]"
  "porches (street_flight k) = [example_porch, right_porch]"
  "newspapers (street_flight k) = [flight k]"
  "score (street_flight k) = 0"
  "isActive (street_flight k)"
  by (simp_all add: street_flight_def street_game_record)

lemma street_landed_fields:
  "walls (street_landed k) = []"
  "mailboxes (street_landed k) = [example_mailbox, right_mailbox]"
  "porches (street_landed k) = [example_porch, right_porch]"
  "newspapers (street_landed k) = [porch_paper]"
  "score (street_landed k) = 10"
  "isActive (street_landed k)"
  by (simp_all add: street_landed_def street_game_record)

lemma porch_throw_31: "porch_throw 31 = street_flight 31"
  by (rule porch_throw_street_flight) simp

lemma porch_throw_32: "porch_throw 32 = street_landed 32"
  using porch_throw_landed [of 0] by simp

lemma porch_throw_40: "porch_throw 40 = street_landed 40"
  using porch_throw_landed [of 8] by simp

lemma reachable_porch_throw: "reachable (porch_throw k)"
  unfolding porch_throw_def by (rule reachable_run [OF reachable_street_game])

section \<open>Claims\<close>

text \<open>
  Claim C1, as stated, with the position that the delivery checks compare (the position
  after gravity, the move and the wall test): an airborne newspaper inside some mailbox's
  zone earns exactly 20 points, one inside some porch's zone earns exactly 10, and either
  way it is delivered, at rest and no longer airborne. This fails for a newspaper inside
  both a mailbox's zone and a porch's zone: the mailbox loop runs first, awards 20 and
  lifts the newspaper to \<open>y = 1.2\<close>, above every porch zone. The mailbox and porch of a
  generated house overlap in this way.
\<close>

theorem porch_zone_not_10_counterexample:
  "thrown paper_at_mailbox \<and> \<not> delivered paper_at_mailbox \<and>
   inPorchZone (Newspaper.position (moveNewspaper [] paper_at_mailbox)) example_porch \<and>
   snd (airborneUpdate [] [example_mailbox] [example_porch] (paper_at_mailbox, 0)) = 20 \<and>
   snd (airborneUpdate [] [example_mailbox] [example_porch] (paper_at_mailbox, 0)) \<noteq> 0 + 10"
proof -
  have a: "thrown paper_at_mailbox" "\<not> delivered paper_at_mailbox"
    by (simp_all add: paper_at_mailbox_def)
  have "snd (airborneUpdate [] [example_mailbox] [example_porch] (paper_at_mailbox, 0)) = 20"
    using a by (simp add: airborneUpdate_def flyNewspaper_score zones_at_mailbox)
  then show ?thesis
    using a by (simp add: zones_at_mailbox)
qed

text \<open>
  Claim C1, amended: an airborne newspaper (thrown and not delivered) whose position after
  the move is inside some mailbox's zone earns exactly 20 points; one inside some porch's
  zone and inside no mailbox's zone earns exactly 10 points; in either case it is marked
  delivered, is no longer thrown, has zero velocity, and any later update leaves it and
  the score as they are.
\<close>

theorem airborne_delivery_awards:
  assumes "thrown n" and "\<not> delivered n"
  shows "((\<exists>m \<in> set mbs. inMailboxZone (Newspaper.position (moveNewspaper ws n)) m) \<longrightarrow>
            snd (airborneUpdate ws mbs pos (n, s)) = s + 20 \<and>
            delivered (fst (airborneUpdate ws mbs pos (n, s))) \<and>
            \<not> thrown (fst (airborneUpdate ws mbs pos (n, s))) \<and>
            Newspaper.velocity (fst (airborneUpdate ws mbs pos (n, s))) = vec 0 0 0 \<and>
            airborneUpdate ws' mbs' pos' (airborneUpdate ws mbs pos (n, s)) =
              airborneUpdate ws mbs pos (n, s)) \<and>
         (\<not> (\<exists>m \<in> set mbs. inMailboxZone (Newspaper.position (moveNewspaper ws n)) m) \<and>
          (\<exists>q \<in> set pos. inPorchZone (Newspaper.position (moveNewspaper ws n)) q) \<longrightarrow>
            snd (airborneUpdate ws mbs pos (n, s)) = s + 10 \<and>
            delivered (fst (airborneUpdate ws mbs pos (n, s))) \<and>
            \<not> thrown (fst (airborneUpdate ws mbs pos (n, s))) \<and>
            Newspaper.velocity (fst (airborneUpdate ws mbs pos (n, s))) = vec 0 0 0 \<and>
            airborneUpdate ws' mbs' pos' (airborneUpdate ws mbs pos (n, s)) =
              airborneUpdate ws mbs pos (n, s))"
proof -
  have air: "airborneUpdate ws mbs pos (n, s) = flyNewspaper ws mbs pos (n, s)"
    using assms by (simp add: airborneUpdate_def)
  show ?thesis
    unfolding air
    by (auto simp: flyNewspaper_mailbox flyNewspaper_porch airborneUpdate_def)
qed

theorem airborne_delivery_awards_witness:
  "thrown paper_at_mailbox \<and> \<not> delivered paper_at_mailbox \<and>
   (\<exists>m \<in> set [example_mailbox]. inMailboxZone (Newspaper.position (moveNewspaper [] paper_at_mailbox)) m) \<and>
   snd (airborneUpdate [] [example_mailbox] [example_porch] (paper_at_mailbox, 7)) = 27 \<and>
   delivered (fst (airborneUpdate [] [example_mailbox] [example_porch] (paper_at_mailbox, 7))) \<and>
   thrown paper_at_porch \<and> \<not> delivered paper_at_porch \<and>
   \<not> (\<exists>m \<in> set [example_mailbox]. inMailboxZone (Newspaper.position (moveNewspaper [] paper_at_porch)) m) \<and>
   (\<exists>q \<in> set [example_porch]. inPorchZone (Newspaper.position (moveNewspaper [] paper_at_porch)) q) \<and>
   snd (airborneUpdate [] [example_mailbox] [example_porch] (paper_at_porch, 7)) = 17 \<and>
   delivered (fst (airborneUpdate [] [example_mailbox] [example_porch] (paper_at_porch, 7)))"
proof -
  have a: "thrown paper_at_mailbox" "\<not> delivered paper_at_mailbox"
    by (simp_all add: paper_at_mailbox_def)
  have b: "thrown paper_at_porch" "\<not> delivered paper_at_porch"
    by (simp_all add: paper_at_porch_def)
  have za: "\<exists>m \<in> set [example_mailbox]. inMailboxZone (Newspaper.position (moveNewspaper [] paper_at_mailbox)) m"
    by (simp add: zones_at_mailbox)
  have zb: "\<not> (\<exists>m \<in> set [example_mailbox]. inMailboxZone (Newspaper.position (moveNewspaper [] paper_at_porch)) m)"
    "\<exists>q \<in> set [example_porch]. inPorchZone (Newspaper.position (moveNewspaper [] paper_at_porch)) q"
    by (simp_all add: zones_at_porch)
  from airborne_delivery_awards [OF a, where mbs = "[example_mailbox]" and ws = "[]" and pos = "[example_porch]" and s = 7 and ws' = "[]" and mbs' = "[]" and pos' = "[]"]
    airborne_delivery_awards [OF b, where mbs = "[example_mailbox]" and ws = "[]" and pos = "[example_porch]" and s = 7 and ws' = "[]" and mbs' = "[]" and pos' = "[]"]
    a b za zb
  show ?thesis by simp
qed

text \<open>
  Claim C2: unless the player is invincible, the collision check returns true exactly when
  some obstacle other than a hill satisfies both distance tests with the 0.7 factor (the
  test of \<^verbatim>\<open>checkCollision\<close>); on a hit lives drop by 1, the score by 5 and the player
  becomes invincible; without a hit, and whenever the player is invincible, it returns
  false and changes nothing.
\<close>

theorem obstacle_collision_check:
  "(fst (Game_checkObstacleCollisions g) =
      (\<not> isInvincible (player g) \<and>
       (\<exists>ob \<in> set (obstacles g). type ob \<noteq> Hill \<and>
          \<bar>X (Body.position (player g)) - X (Body.position ob)\<bar>
            < (Body.width (player g) / 2 + Body.width ob / 2) * 0.7 \<and>
          \<bar>Z (Body.position (player g)) - Z (Body.position ob)\<bar>
            < (depth (player g) / 2 + depth ob / 2) * 0.7))) \<and>
   (\<forall>ob :: Obstacle. checkCollision (player g) ob =
      (\<bar>X (Body.position (player g)) - X (Body.position ob)\<bar>
         < (Body.width (player g) / 2 + Body.width ob / 2) * 0.7 \<and>
       \<bar>Z (Body.position (player g)) - Z (Body.position ob)\<bar>
         < (depth (player g) / 2 + depth ob / 2) * 0.7)) \<and>
   (fst (Game_checkObstacleCollisions g) \<longrightarrow>
      lives (snd (Game_checkObstacleCollisions g)) = lives g - 1 \<and>
      score (snd (Game_checkObstacleCollisions g)) = score g - 5 \<and>
      isInvincible (player (snd (Game_checkObstacleCollisions g)))) \<and>
   (\<not> fst (Game_checkObstacleCollisions g) \<longrightarrow> snd (Game_checkObstacleCollisions g) = g) \<and>
   (isInvincible (player g) \<longrightarrow> Game_checkObstacleCollisions g = (False, g))"
proof -
  have cc: "checkCollision (player g) ob =
      (\<bar>X (Body.position (player g)) - X (Body.position ob)\<bar>
         < (Body.width (player g) / 2 + Body.width ob / 2) * 0.7 \<and>
       \<bar>Z (Body.position (player g)) - Z (Body.position ob)\<bar>
         < (depth (player g) / 2 + depth ob / 2) * 0.7)" for ob :: Obstacle
    by (simp add: checkCollision_def Let_def)
  have hit: "fst (Game_checkObstacleCollisions g) =
      (\<not> isInvincible (player g) \<and>
       (\<exists>ob \<in> set (obstacles g). type ob \<noteq> Hill \<and>
          \<bar>X (Body.position (player g)) - X (Body.position ob)\<bar>
            < (Body.width (player g) / 2 + Body.width ob / 2) * 0.7 \<and>
          \<bar>Z (Body.position (player g)) - Z (Body.position ob)\<bar>
            < (depth (player g) / 2 + depth ob / 2) * 0.7))"
    by (simp add: Game_checkObstacleCollisions_fst cc)
  have eff: "fst (Game_checkObstacleCollisions g) \<longrightarrow>
      lives (snd (Game_checkObstacleCollisions g)) = lives g - 1 \<and>
      score (snd (Game_checkObstacleCollisions g)) = score g - 5 \<and>
      isInvincible (player (snd (Game_checkObstacleCollisions g)))"
    by (simp add: Game_checkObstacleCollisions_snd collide_fields Player_makeInvincible_def)
  have miss: "\<not> fst (Game_checkObstacleCollisions g) \<longrightarrow> snd (Game_checkObstacleCollisions g) = g"
    by (simp add: Game_checkObstacleCollisions_snd)
  have inv: "isInvincible (player g) \<longrightarrow> Game_checkObstacleCollisions g = (False, g)"
    by (simp add: Game_checkObstacleCollisions_def)
  from hit cc eff miss inv show ?thesis by blast
qed

theorem obstacle_collision_check_witness:
  "\<not> isInvincible (player crash_game) \<and>
   fst (Game_checkObstacleCollisions crash_game) \<and>
   lives (snd (Game_checkObstacleCollisions crash_game)) = 2 \<and>
   score (snd (Game_checkObstacleCollisions crash_game)) = - 5 \<and>
   isInvincible (player (snd (Game_checkObstacleCollisions crash_game))) \<and>
   Game_checkObstacleCollisions (snd (Game_checkObstacleCollisions crash_game)) =
     (False, snd (Game_checkObstacleCollisions crash_game))"
proof -
  have hit: "fst (Game_checkObstacleCollisions crash_game)"
    using obstacle_collision_check [of crash_game]
    by (simp add: crash_game_fields example_car_def example_hill_def vec_def)
  with obstacle_collision_check [of crash_game]
    obstacle_collision_check [of "snd (Game_checkObstacleCollisions crash_game)"]
  show ?thesis by (simp add: crash_game_fields)
qed

text \<open>
  Claim C3: from a reachable active state, a frame ends the game exactly when the
  collision check reports a hit that takes the lives to zero, or the paper count is zero
  and the newspapers list is empty after the frame's newspaper update; in every other
  case the frame leaves the game active, and so does every other event (a tick of the
  controls, a key going down or up, a restart).
\<close>

theorem game_over_exactly_at_terminal_conditions:
  assumes "reachable g" and "isActive g"
  shows "((\<not> isActive (Game_animate g deltaTime)) =
            ((fst (Game_checkObstacleCollisions g) \<and> lives (Game_animate g deltaTime) = 0) \<or>
             (papers (Game_animate g deltaTime) = 0 \<and> newspapers (Game_animate g deltaTime) = []))) \<and>
         isActive (Controls_update g) \<and>
         isActive (Controls_handleKeyDown g k tx tz) \<and>
         isActive (Controls_handleKeyUp g k) \<and>
         isActive (Game_restartGame g)"
proof -
  have l: "0 < lives g" using assms by (rule reachable_lives)
  have p: "0 \<le> papers g" using assms(1) by (rule reachable_papers)
  have "(\<not> isActive (Game_animate g deltaTime)) =
            ((fst (Game_checkObstacleCollisions g) \<and> lives (Game_animate g deltaTime) = 0) \<or>
             (papers (Game_animate g deltaTime) = 0 \<and> newspapers (Game_animate g deltaTime) = []))"
    using l p assms(2)
    by (auto simp add: Game_animate_isActive Game_animate_lives Game_animate_papers)
  then show ?thesis
    using assms(2)
    by (simp add: Controls_update_fields Controls_handleKeyDown_fields
        Controls_handleKeyUp_fields Game_restartGame_fields)
qed

theorem game_over_exactly_at_terminal_conditions_witness:
  "reachable last_life \<and> isActive last_life \<and> lives last_life = 1 \<and>
   fst (Game_checkObstacleCollisions last_life) \<and>
   lives (Game_animate last_life 0.016) = 0 \<and>
   \<not> isActive (Game_animate last_life 0.016) \<and>
   reachable crash_game \<and> isActive crash_game \<and>
   isActive (Game_animate crash_game 0.016)"
proof -
  have act: "isActive last_life" using last_life_fields by simp
  have l0: "lives (Game_animate last_life 0.016) = 0"
    using last_life_fields by (simp add: Game_animate_lives)
  have act2: "isActive crash_game"
    by (simp add: crash_game_def Game_startGame_def)
  have l2: "lives (Game_animate crash_game 0.016) = 2"
    using act2 obstacle_hit_crash by (simp add: Game_animate_lives crash_game_fields)
  have p2: "papers (Game_animate crash_game 0.016) = 100"
    by (simp add: Game_animate_papers crash_game_def Game_startGame_def)
  from game_over_exactly_at_terminal_conditions [OF reachable_last_life act, of "0.016"]
    game_over_exactly_at_terminal_conditions [OF reachable_crash_game act2, of "0.016"]
    last_life_fields l0 l2 p2 reachable_last_life reachable_crash_game act2
  show ?thesis by simp
qed

text \<open>
  Claim C4: whatever the player's position and velocity, after \<^verbatim>\<open>update\<close> the player's
  \<open>x\<close> lies in \<open>[-15, 15]\<close>; \<^verbatim>\<open>create\<close> and \<^verbatim>\<open>reset\<close> put the player inside the lane,
  and no other operation of the player, no event and no start of the game moves a player
  who is inside the lane out of it; so the player is inside the lane in every reachable
  state.
\<close>

theorem player_x_stays_in_lane:
  "- 15 \<le> X (Body.position (Player_update p deltaTime)) \<and>
   X (Body.position (Player_update p deltaTime)) \<le> 15 \<and>
   inLane (Player_create p) \<and> inLane (Player_reset p) \<and>
   (inLane p \<longrightarrow> inLane (Player_startJump p) \<and> inLane (Player_makeInvincible p)) \<and>
   (inLane (player g) \<longrightarrow> inLane (player (handle ev g)) \<and> inLane (player (Game_startGame g))) \<and>
   (reachable g' \<longrightarrow> inLane (player g'))"
proof -
  have "- 15 \<le> X (Body.position (Player_update p deltaTime)) \<and>
        X (Body.position (Player_update p deltaTime)) \<le> 15"
    by (simp add: Player_update_X)
  then show ?thesis
    by (simp add: inLane_simple inLane_handle reachable_inLane Game_startGame_def)
qed

theorem player_x_stays_in_lane_witness:
  "inLane far_right \<and> X (Body.position far_right) + X (Player.velocity far_right) > 15 \<and>
   X (Body.position (Player_update far_right 0.016)) = 15 \<and>
   inLane (Player_startJump far_right) \<and> inLane (Player_makeInvincible far_right) \<and>
   inLane (player example_game) \<and> inLane (player (handle (Frame 0.016) example_game)) \<and>
   reachable fifty_one_thrown \<and> inLane (player fifty_one_thrown)"
proof -
  have a: "inLane far_right"
    by (simp add: inLane_def far_right_def vec_def)
  have b: "inLane (player example_game)"
    by (simp add: example_game_def Game_startGame_def Game_init_def inLane_simple)
  have c: "X (Body.position (Player_update far_right 0.016)) = 15"
    by (simp add: Player_update_X far_right_def vec_def)
  have d: "X (Body.position far_right) + X (Player.velocity far_right) > 15"
    by (simp add: far_right_def vec_def)
  from player_x_stays_in_lane [of far_right "0.016" example_game "Frame 0.016" fifty_one_thrown]
    a b c d fifty_one_thrown_fields(1)
  show ?thesis by simp
qed

text \<open>
  Claim C5 says that a newspaper at rest on the ground, undelivered, is removed only once
  30 time units have passed since it landed, and is kept until then. The source compares
  the clock of the whole game (\<^verbatim>\<open>this.gameTime > 30\<close>) instead, under the comment
  "Remove old undelivered papers". In the late throw the newspaper is still in the air
  after 33 frames, with the clock past 31, and the 34th frame, in which it lands, already
  removes it. Likewise, in a game 31 time units old a newspaper just above the street
  lands and is removed within one update, while with the clock at 30 the same newspaper
  lands and stays in the list.
\<close>

theorem landing_paper_removed_at_once:
  "reachable (late_throw 33) \<and> newspapers (late_throw 33) = [flight 33] \<and>
   thrown (flight 33) \<and> \<not> delivered (flight 33) \<and>
   30 < gameTime (late_throw 33) \<and>
   newspapers (late_throw 34) = [] \<and>
   gameTime landing_game = 31 \<and> newspapers landing_game = [paper_landing] \<and>
   thrown paper_landing \<and> \<not> delivered paper_landing \<and>
   newspapers (Game_updateNewspapers landing_game) = [] \<and>
   newspapers (Game_updateNewspapers (landing_game\<lparr>gameTime := 30\<rparr>)) =
     [paper_landing\<lparr>Newspaper.position := vec 3.5 0.05 5, Newspaper.velocity := vec 0 0 0,
                    thrown := False\<rparr>]"
proof -
  have s34: "Suc 33 = 34" by simp
  have r: "reachable (late_throw 33)"
    unfolding late_throw_def by (rule reachable_run [OF reachable_example_game])
  have eq33: "late_throw 33 = in_flight 33"
    by (rule late_throw_in_flight) simp
  have "late_throw 34 = Game_animate (late_throw 33) 0.016"
    using late_throw_Suc [of 33] unfolding s34 .
  then have gone: "newspapers (late_throw 34) = []"
    by (simp only: eq33 landing_frame)
  have there: "newspapers (late_throw 33) = [flight 33]" "30 < gameTime (late_throw 33)"
    unfolding eq33 by (simp_all add: in_flight_def)
  have air: "thrown (flight 33)" "\<not> delivered (flight 33)"
    by (simp_all add: flight_def)
  have state: "gameTime landing_game = 31 \<and> newspapers landing_game = [paper_landing] \<and>
     thrown paper_landing \<and> \<not> delivered paper_landing \<and>
     newspapers (Game_updateNewspapers landing_game) = [] \<and>
     newspapers (Game_updateNewspapers (landing_game\<lparr>gameTime := 30\<rparr>)) =
       [paper_landing\<lparr>Newspaper.position := vec 3.5 0.05 5, Newspaper.velocity := vec 0 0 0,
                      thrown := False\<rparr>]"
    unfolding landing_game_def example_game_def paper_landing_def
    by code_simp
  from r there air gone state show ?thesis by blast
qed

text \<open>
  Claim C6, as stated: in every reachable state the newspapers list is no longer than the
  remaining paper count. After fifty-one throws the list holds 51 newspapers and 49 papers
  remain.
\<close>

theorem newspapers_exceed_papers_counterexample:
  "reachable fifty_one_thrown \<and> papers fifty_one_thrown = 49 \<and>
   length (newspapers fifty_one_thrown) = 51 \<and>
   \<not> int (length (newspapers fifty_one_thrown)) \<le> papers fifty_one_thrown"
  by (simp add: fifty_one_thrown_fields)

text \<open>
  Claim C6, amended: in every reachable state the length of the newspapers list is bounded
  by the number of papers already spent, \<open>100 - papers\<close>.
\<close>

theorem newspapers_bounded_by_papers_spent:
  "reachable g \<Longrightarrow> int (length (newspapers g)) \<le> 100 - papers g"
proof (induction rule: reachable.induct)
  case (start ks obs mbs pos ws)
  show ?case by (simp add: started_fields)
next
  case (step g ev)
  show ?case
  proof (cases ev)
    case (Frame dt)
    have "int (length (newspapers (Game_animate g dt))) \<le> int (length (newspapers g))"
      using Game_animate_length [of g dt] by simp
    with step.IH Frame show ?thesis by (simp add: Game_animate_papers)
  next
    case ControlsTick
    with step.IH show ?thesis by (simp add: Controls_update_fields)
  next
    case (KeyDown k tx tz)
    with step.IH show ?thesis by (simp add: Controls_handleKeyDown_fields)
  next
    case (KeyUp k)
    with step.IH show ?thesis by (simp add: Controls_handleKeyUp_fields)
  next
    case RestartClick
    then show ?thesis by (simp add: Game_restartGame_fields)
  qed
qed

theorem newspapers_bounded_by_papers_spent_witness:
  "reachable all_thrown \<and> papers all_thrown = 0 \<and> length (newspapers all_thrown) = 100 \<and>
   int (length (newspapers all_thrown)) \<le> 100 - papers all_thrown"
  using newspapers_bounded_by_papers_spent [of all_thrown]
  by (simp add: all_thrown_fields)

text \<open>
  Claim C7, as stated: the lookup helper returns \<^verbatim>\<open>undefined\<close> for a missing element.
  It returns what the DOM lookup returned, which is \<^verbatim>\<open>null\<close>.
\<close>

theorem missing_element_is_null_counterexample:
  "page ''lives'' = None \<and> fst (getElementById page [] ''lives'') = Null \<and>
   fst (getElementById page [] ''lives'') \<noteq> Undefined"
  by (simp add: getElementById_def document_getElementById_def page_def)

text \<open>
  Claim C7, amended: for every id, the lookup helper returns the element when the document
  has one and leaves the console alone; when the element is missing it appends one error
  line to the console and returns \<^verbatim>\<open>null\<close>.
\<close>

theorem getElementById_result:
  "(doc ident = Some e \<longrightarrow> getElementById doc console ident = (Element e, console)) \<and>
   (doc ident = None \<longrightarrow>
      getElementById doc console ident =
        (Null, console @ [''Element with ID \"'' @ ident @ ''\" not found'']))"
  by (simp add: getElementById_def document_getElementById_def)

theorem getElementById_result_witness:
  "page ''score'' = Some 1 \<and> getElementById page [] ''score'' = (Element 1, []) \<and>
   page ''lives'' = None \<and>
   getElementById page [] ''lives'' = (Null, [''Element with ID \"lives\" not found''])"
  using getElementById_result [of page "''score''" 1 "[]"]
    getElementById_result [of page "''lives''" 1 "[]"]
  by (simp add: page_def)

text \<open>
  Claim C8: the collision check, the newspaper update and the whole animation frame leave
  the obstacles, mailboxes and porches lists, and so every record in them, as they were.
\<close>

theorem world_lists_only_read:
  "obstacles (snd (Game_checkObstacleCollisions g)) = obstacles g \<and>
   mailboxes (snd (Game_checkObstacleCollisions g)) = mailboxes g \<and>
   porches (snd (Game_checkObstacleCollisions g)) = porches g \<and>
   obstacles (Game_updateNewspapers g) = obstacles g \<and>
   mailboxes (Game_updateNewspapers g) = mailboxes g \<and>
   porches (Game_updateNewspapers g) = porches g \<and>
   obstacles (Game_animate g deltaTime) = obstacles g \<and>
   mailboxes (Game_animate g deltaTime) = mailboxes g \<and>
   porches (Game_animate g deltaTime) = porches g"
  by (simp add: Game_checkObstacleCollisions_snd collide_fields Game_updateNewspapers_frame
      Game_animate_world)

text \<open>
  Claim C9: with no papers left (\<open>papers \<le> 0\<close>), \<^verbatim>\<open>Game.createNewspaper\<close> returns the
  game unchanged: the paper count is not decremented and the newspapers list is not
  extended.
\<close>

theorem createNewspaper_without_papers:
  "papers g \<le> 0 \<Longrightarrow>
   Game_createNewspaper g a b c velocityX velocityZ = g \<and>
   papers (Game_createNewspaper g a b c velocityX velocityZ) = papers g \<and>
   newspapers (Game_createNewspaper g a b c velocityX velocityZ) = newspapers g"
  by (simp add: Game_createNewspaper_def)

theorem createNewspaper_without_papers_witness:
  "papers all_thrown \<le> 0 \<and> Game_createNewspaper all_thrown 0.5 2 0 0.5 0 = all_thrown \<and>
   length (newspapers (Game_createNewspaper all_thrown 0.5 2 0 0.5 0)) = 100"
  using createNewspaper_without_papers [of all_thrown "0.5" 2 0 "0.5" 0]
  by (simp add: all_thrown_fields)

text \<open>
  Claim C10: a newspaper is delivered and scored at most once. In one frame its award is
  0, 10 or 20; an airborne newspaper inside a mailbox's zone earns 20 whatever the porches
  are (the mailbox scan comes first); a frame that awards points finds the newspaper
  undelivered and leaves it delivered; a delivered newspaper is left as it is, with the
  score, by the update of one newspaper and by the loop body at its index. The game's
  update stores each updated newspaper: the list afterwards holds the updated newspapers
  that are not removed, the score grows by their awards, a newspaper that earned an award
  is in the list afterwards as delivered, and a delivered newspaper stays in the list
  through any number of updates. So over any number of updates the score grows by the
  awards of the newspapers' lives, each of which has at most one award that is not zero
  and a total of 0, 10 or 20: the growth is at least 0 and at most 20 for each newspaper
  in the list. A frame of the game changes the newspapers exactly as the update at the
  advanced clock does, and the score as that update does, less 5 on a collision.
\<close>

theorem newspaper_delivered_at_most_once:
  "snd (airborneUpdate ws mbs pos (n, s)) - s \<in> {0, 10, 20} \<and>
   (thrown n \<and> \<not> delivered n \<and>
      (\<exists>m \<in> set mbs. inMailboxZone (Newspaper.position (moveNewspaper ws n)) m) \<longrightarrow>
        snd (airborneUpdate ws mbs pos (n, s)) = s + 20) \<and>
   (snd (airborneUpdate ws mbs pos (n, s)) \<noteq> s \<longrightarrow>
        \<not> delivered n \<and> delivered (fst (airborneUpdate ws mbs pos (n, s)))) \<and>
   (delivered n \<longrightarrow> airborneUpdate ws mbs pos (n, s) = (n, s)) \<and>
   (i < length (newspapers g) \<and> delivered (newspapers g ! i) \<longrightarrow> updateNewspaperAt i g = g) \<and>
   length (filter (\<lambda>a. a \<noteq> 0) (awards ws mbs pos k n)) \<le> 1 \<and>
   sum_list (awards ws mbs pos k n) \<in> {0, 10, 20} \<and>
   score (Game_updateNewspapers g) =
     score g + sum_list (map (\<lambda>n. snd (airborneUpdate (walls g) (mailboxes g) (porches g) (n, 0)))
                          (newspapers g)) \<and>
   newspapers (Game_updateNewspapers g) =
     filter (\<lambda>n'. \<not> (\<not> thrown n' \<and> \<not> delivered n' \<and> 30 < gameTime g))
       (map (\<lambda>n. fst (airborneUpdate (walls g) (mailboxes g) (porches g) (n, 0))) (newspapers g)) \<and>
   (m \<in> set (newspapers g) \<and>
    snd (airborneUpdate (walls g) (mailboxes g) (porches g) (m, 0)) \<noteq> 0 \<longrightarrow>
      fst (airborneUpdate (walls g) (mailboxes g) (porches g) (m, 0))
        \<in> set (newspapers (Game_updateNewspapers g)) \<and>
      delivered (fst (airborneUpdate (walls g) (mailboxes g) (porches g) (m, 0)))) \<and>
   (m \<in> set (newspapers g) \<and> delivered m \<longrightarrow> m \<in> set (newspapers (updates ts g))) \<and>
   score (updates ts g) =
     score g + sum_list (map (\<lambda>n. sum_list (awards (walls g) (mailboxes g) (porches g) (length ts) n))
                          (newspapers g)) \<and>
   score g \<le> score (updates ts g) \<and>
   score (updates ts g) \<le> score g + 20 * int (length (newspapers g)) \<and>
   (isActive g \<longrightarrow>
      newspapers (Game_animate g deltaTime) =
        newspapers (Game_updateNewspapers (g\<lparr>gameTime := gameTime g + deltaTime\<rparr>)) \<and>
      score (Game_animate g deltaTime) =
        score (Game_updateNewspapers (g\<lparr>gameTime := gameTime g + deltaTime\<rparr>)) -
          (if fst (Game_checkObstacleCollisions g) then 5 else 0))"
proof -
  have a: "snd (airborneUpdate ws mbs pos (n, s)) - s \<in> {0, 10, 20}"
    by (simp add: airborneUpdate_score)
  have b: "thrown n \<and> \<not> delivered n \<and>
      (\<exists>m \<in> set mbs. inMailboxZone (Newspaper.position (moveNewspaper ws n)) m) \<longrightarrow>
        snd (airborneUpdate ws mbs pos (n, s)) = s + 20"
    by (simp add: airborneUpdate_score)
  have c: "snd (airborneUpdate ws mbs pos (n, s)) \<noteq> s \<longrightarrow>
        \<not> delivered n \<and> delivered (fst (airborneUpdate ws mbs pos (n, s)))"
    using airborneUpdate_scored_delivered by blast
  have d: "delivered n \<longrightarrow> airborneUpdate ws mbs pos (n, s) = (n, s)"
    by (simp add: airborneUpdate_delivered_id)
  have e: "i < length (newspapers g) \<and> delivered (newspapers g ! i) \<longrightarrow> updateNewspaperAt i g = g"
    by (simp add: updateNewspaperAt_delivered)
  have f: "m \<in> set (newspapers g) \<and>
    snd (airborneUpdate (walls g) (mailboxes g) (porches g) (m, 0)) \<noteq> 0 \<longrightarrow>
      fst (airborneUpdate (walls g) (mailboxes g) (porches g) (m, 0))
        \<in> set (newspapers (Game_updateNewspapers g)) \<and>
      delivered (fst (airborneUpdate (walls g) (mailboxes g) (porches g) (m, 0)))"
    using awarded_is_stored [of m g] by blast
  have h: "m \<in> set (newspapers g) \<and> delivered m \<longrightarrow> m \<in> set (newspapers (updates ts g))"
    using delivered_stays [of m g ts] by blast
  have l: "isActive g \<longrightarrow>
      newspapers (Game_animate g deltaTime) =
        newspapers (Game_updateNewspapers (g\<lparr>gameTime := gameTime g + deltaTime\<rparr>)) \<and>
      score (Game_animate g deltaTime) =
        score (Game_updateNewspapers (g\<lparr>gameTime := gameTime g + deltaTime\<rparr>)) -
          (if fst (Game_checkObstacleCollisions g) then 5 else 0)"
    using Game_animate_newspapers [of g deltaTime] by blast
  from a b c d e f h l awards_once [of ws mbs pos k n] Game_updateNewspapers_score [of g]
    Game_updateNewspapers_newspapers [of g] updates_score [of ts g] updates_score_bounds [of g ts]
  show ?thesis by blast
qed

theorem newspaper_delivered_at_most_once_witness:
  "thrown paper_at_mailbox \<and> \<not> delivered paper_at_mailbox \<and>
   (\<exists>m \<in> set [example_mailbox]. inMailboxZone (Newspaper.position (moveNewspaper [] paper_at_mailbox)) m) \<and>
   (\<exists>q \<in> set [example_porch]. inPorchZone (Newspaper.position (moveNewspaper [] paper_at_mailbox)) q) \<and>
   snd (airborneUpdate [] [example_mailbox] [example_porch] (paper_at_mailbox, 0)) = 20 \<and>
   delivered (fst (airborneUpdate [] [example_mailbox] [example_porch] (paper_at_mailbox, 0))) \<and>
   reachable (porch_throw 31) \<and> isActive (porch_throw 31) \<and>
   newspapers (porch_throw 31) = [flight 31] \<and> thrown (flight 31) \<and> \<not> delivered (flight 31) \<and>
   score (porch_throw 31) = 0 \<and>
   snd (airborneUpdate (walls (porch_throw 31)) (mailboxes (porch_throw 31)) (porches (porch_throw 31))
          (flight 31, 0)) = 10 \<and>
   porch_paper \<in> set (newspapers (Game_updateNewspapers (porch_throw 31))) \<and>
   score (Game_updateNewspapers (porch_throw 31)) = 10 \<and>
   score (updates [0.512, 0.528, 0.544] (porch_throw 31)) = 10 \<and>
   newspapers (Game_animate (porch_throw 31) 0.016) =
     newspapers (Game_updateNewspapers ((porch_throw 31)\<lparr>gameTime := gameTime (porch_throw 31) + 0.016\<rparr>)) \<and>
   reachable (porch_throw 32) \<and> newspapers (porch_throw 32) = [porch_paper] \<and>
   delivered porch_paper \<and> score (porch_throw 32) = 10 \<and>
   airborneUpdate [] [example_mailbox, right_mailbox] [example_porch, right_porch] (porch_paper, 10) =
     (porch_paper, 10) \<and>
   updateNewspaperAt 0 (porch_throw 32) = porch_throw 32 \<and>
   porch_paper \<in> set (newspapers (updates [0.528, 0.544, 31] (porch_throw 32))) \<and>
   score (updates [0.528, 0.544, 31] (porch_throw 32)) = 10 \<and>
   newspapers (porch_throw 40) = [porch_paper] \<and> score (porch_throw 40) = 10"
proof -
  let ?MB = "[example_mailbox, right_mailbox]"
  let ?PO = "[example_porch, right_porch]"
  have a: "thrown paper_at_mailbox" "\<not> delivered paper_at_mailbox"
    by (simp_all add: paper_at_mailbox_def)
  have z: "\<exists>m \<in> set [example_mailbox]. inMailboxZone (Newspaper.position (moveNewspaper [] paper_at_mailbox)) m"
    "\<exists>q \<in> set [example_porch]. inPorchZone (Newspaper.position (moveNewspaper [] paper_at_mailbox)) q"
    by (simp_all add: zones_at_mailbox)
  have air: "thrown (flight 31)" "\<not> delivered (flight 31)" by (simp_all add: flight_def)
  have del: "delivered porch_paper" by (simp add: porch_paper_def)
  have award: "snd (airborneUpdate (walls (porch_throw 31)) (mailboxes (porch_throw 31))
      (porches (porch_throw 31)) (flight 31, 0)) = 10"
    and upd: "fst (airborneUpdate (walls (porch_throw 31)) (mailboxes (porch_throw 31))
      (porches (porch_throw 31)) (flight 31, 0)) = porch_paper"
    by (simp_all add: porch_throw_31 street_flight_fields airborneUpdate_porch_delivery)
  have f31: "newspapers (porch_throw 31) = [flight 31]" "score (porch_throw 31) = 0"
    "isActive (porch_throw 31)"
    by (simp_all add: porch_throw_31 street_flight_fields)
  have f32: "newspapers (porch_throw 32) = [porch_paper]" "score (porch_throw 32) = 10"
    by (simp_all add: porch_throw_32 street_landed_fields)
  have f40: "newspapers (porch_throw 40) = [porch_paper]" "score (porch_throw 40) = 10"
    by (simp_all add: porch_throw_40 street_landed_fields)
  note first = newspaper_delivered_at_most_once [where ws = "[]" and mbs = "[example_mailbox]"
      and pos = "[example_porch]" and n = paper_at_mailbox and s = 0 and i = 0
      and g = "porch_throw 31" and k = 3 and m = "flight 31"
      and ts = "[0.512, 0.528, 0.544]" and deltaTime = "0.016"]
  note second = newspaper_delivered_at_most_once [where ws = "[]" and mbs = ?MB
      and pos = ?PO and n = porch_paper and s = 10 and i = 0
      and g = "porch_throw 32" and k = 3 and m = porch_paper
      and ts = "[0.528, 0.544, 31]" and deltaTime = "0.016"]
  have s20: "snd (airborneUpdate [] [example_mailbox] [example_porch] (paper_at_mailbox, 0)) = 20"
    using first [THEN conjunct2, THEN conjunct1] a z by simp
  then have d20: "delivered (fst (airborneUpdate [] [example_mailbox] [example_porch] (paper_at_mailbox, 0)))"
    using first [THEN conjunct2, THEN conjunct2, THEN conjunct1] by simp
  have "fst (airborneUpdate (walls (porch_throw 31)) (mailboxes (porch_throw 31))
      (porches (porch_throw 31)) (flight 31, 0)) \<in> set (newspapers (Game_updateNewspapers (porch_throw 31)))"
    using first [THEN conjunct2, THEN conjunct2, THEN conjunct2, THEN conjunct2, THEN conjunct2, THEN conjunct2, THEN conjunct2, THEN conjunct2, THEN conjunct2, THEN conjunct1] f31(1) award by simp
  then have stored: "porch_paper \<in> set (newspapers (Game_updateNewspapers (porch_throw 31)))"
    by (simp only: upd)
  have "score (Game_updateNewspapers (porch_throw 31)) =
      score (porch_throw 31) + sum_list (map (\<lambda>n. snd (airborneUpdate (walls (porch_throw 31))
        (mailboxes (porch_throw 31)) (porches (porch_throw 31)) (n, 0))) (newspapers (porch_throw 31)))"
    by (rule first [THEN conjunct2, THEN conjunct2, THEN conjunct2, THEN conjunct2, THEN conjunct2, THEN conjunct2, THEN conjunct2, THEN conjunct1])
  then have sc1: "score (Game_updateNewspapers (porch_throw 31)) = 10"
    by (simp add: f31 award)
  have "score (updates [0.512, 0.528, 0.544] (porch_throw 31)) =
      score (porch_throw 31) + sum_list (map (\<lambda>n. sum_list (awards (walls (porch_throw 31))
        (mailboxes (porch_throw 31)) (porches (porch_throw 31)) (length [0.512, 0.528, 0.544 :: real]) n))
          (newspapers (porch_throw 31)))"
    by (rule first [THEN conjunct2, THEN conjunct2, THEN conjunct2, THEN conjunct2, THEN conjunct2, THEN conjunct2, THEN conjunct2, THEN conjunct2, THEN conjunct2, THEN conjunct2, THEN conjunct2, THEN conjunct1])
  then have sc3: "score (updates [0.512, 0.528, 0.544] (porch_throw 31)) = 10"
    by (simp add: f31 porch_throw_31 street_flight_fields airborneUpdate_porch_delivery
        airborneUpdate_delivered_id del)
  have frame: "newspapers (Game_animate (porch_throw 31) 0.016) =
     newspapers (Game_updateNewspapers ((porch_throw 31)\<lparr>gameTime := gameTime (porch_throw 31) + 0.016\<rparr>))"
    using first [THEN conjunct2, THEN conjunct2, THEN conjunct2, THEN conjunct2, THEN conjunct2, THEN conjunct2, THEN conjunct2, THEN conjunct2, THEN conjunct2, THEN conjunct2, THEN conjunct2, THEN conjunct2, THEN conjunct2, THEN conjunct2] f31(3) by simp
  have again: "airborneUpdate [] ?MB ?PO (porch_paper, 10) = (porch_paper, 10)"
    using second [THEN conjunct2, THEN conjunct2, THEN conjunct2, THEN conjunct1] del by simp
  have "0 < length (newspapers (porch_throw 32)) \<and> delivered (newspapers (porch_throw 32) ! 0)"
    by (simp add: f32 del)
  then have body: "updateNewspaperAt 0 (porch_throw 32) = porch_throw 32"
    using second [THEN conjunct2, THEN conjunct2, THEN conjunct2, THEN conjunct2, THEN conjunct1] by simp
  have "porch_paper \<in> set (newspapers (porch_throw 32))" by (simp add: f32)
  then have stays: "porch_paper \<in> set (newspapers (updates [0.528, 0.544, 31] (porch_throw 32)))"
    using second [THEN conjunct2, THEN conjunct2, THEN conjunct2, THEN conjunct2, THEN conjunct2, THEN conjunct2, THEN conjunct2, THEN conjunct2, THEN conjunct2, THEN conjunct2, THEN conjunct1] del by simp
  have "score (porch_throw 32) \<le> score (updates [0.528, 0.544, 31] (porch_throw 32))"
    by (rule second [THEN conjunct2, THEN conjunct2, THEN conjunct2, THEN conjunct2, THEN conjunct2, THEN conjunct2, THEN conjunct2, THEN conjunct2, THEN conjunct2, THEN conjunct2, THEN conjunct2, THEN conjunct2, THEN conjunct1])
  moreover have "score (updates [0.528, 0.544, 31] (porch_throw 32)) =
      score (porch_throw 32) + sum_list (map (\<lambda>n. sum_list (awards (walls (porch_throw 32))
        (mailboxes (porch_throw 32)) (porches (porch_throw 32)) (length [0.528, 0.544, 31 :: real]) n))
          (newspapers (porch_throw 32)))"
    by (rule second [THEN conjunct2, THEN conjunct2, THEN conjunct2, THEN conjunct2, THEN conjunct2, THEN conjunct2, THEN conjunct2, THEN conjunct2, THEN conjunct2, THEN conjunct2, THEN conjunct2, THEN conjunct1])
  ultimately have sc4: "score (updates [0.528, 0.544, 31] (porch_throw 32)) = 10"
    by (simp add: f32 airborneUpdate_delivered_id del)
  from a z s20 d20 reachable_porch_throw [of 31] reachable_porch_throw [of 32] f31 air award
    stored sc1 sc3 frame f32 del again body stays sc4 f40
  show ?thesis by blast
qed

end
